theory Spec2Isabelle
  imports Complex_Main
begin

section \<open>Python strings\<close>

text \<open>
  A Python \<open>str\<close> is modelled as a HOL \<open>string\<close>: a list of characters whose code
  points lie below 256. The character classes below are the ones Python 3.11 computes
  on that range.
\<close>

definition code :: "char \<Rightarrow> nat" where
  "code c = of_char c"

definition isspace :: "char \<Rightarrow> bool" where
  \<comment> \<open>\<open>str.isspace\<close> on one character: the characters \<open>str.strip()\<close> removes.\<close>
  "isspace c = (code c \<in> {9, 10, 11, 12, 13, 28, 29, 30, 31, 32, 133, 160})"

definition strip :: "string \<Rightarrow> string" where
  "strip s = rev (dropWhile isspace (rev (dropWhile isspace s)))"

definition lower_char :: "char \<Rightarrow> char" where
  "lower_char c =
     (let n = code c
      in if (65 \<le> n \<and> n \<le> 90) \<or> (192 \<le> n \<and> n \<le> 222 \<and> n \<noteq> 215)
         then char_of (n + 32) else c)"

definition lower :: "string \<Rightarrow> string" where
  "lower s = map lower_char s"

definition startswith :: "string \<Rightarrow> string \<Rightarrow> bool" where
  "startswith s p = (take (length p) s = p)"

definition endswith :: "string \<Rightarrow> string \<Rightarrow> bool" where
  "endswith s p = (length p \<le> length s \<and> drop (length s - length p) s = p)"

fun contains :: "string \<Rightarrow> string \<Rightarrow> bool" where
  \<comment> \<open>\<open>contains sub s\<close> is Python's \<open>sub in s\<close>.\<close>
  "contains sub [] = (sub = [])"
| "contains sub (c # cs) = (startswith (c # cs) sub \<or> contains sub cs)"

definition split1 :: "char \<Rightarrow> string \<Rightarrow> string \<times> string" where
  \<comment> \<open>\<open>s.split(d, 1)\<close> for a string \<open>s\<close> that holds \<open>d\<close>: the text before and after
      the first \<open>d\<close>.\<close>
  "split1 d s = (takeWhile (\<lambda>c. c \<noteq> d) s, drop 1 (dropWhile (\<lambda>c. c \<noteq> d) s))"

fun split_on :: "char \<Rightarrow> string \<Rightarrow> string list" where
  \<comment> \<open>\<open>s.split(d)\<close>\<close>
  "split_on d [] = [[]]"
| "split_on d (c # cs) =
     (if c = d then [] # split_on d cs
      else (case split_on d cs of [] \<Rightarrow> [[c]] | x # xs \<Rightarrow> (c # x) # xs))"

section \<open>Exceptions\<close>

record http_error =
  resp_status :: "int option"  \<comment> \<open>\<open>exc.resp.status\<close>, \<open>None\<close> when the attribute is missing\<close>
  content :: "string option"   \<comment> \<open>\<open>exc.content\<close>, the bytes of the response body\<close>
  http_str :: string           \<comment> \<open>\<open>str(exc)\<close>\<close>

text \<open>
  The exceptions the program raises or meets. Each carries what \<open>str(exc)\<close> prints.
  \<open>Exit n\<close> is \<open>click.exceptions.Exit(n)\<close>.
\<close>

datatype exn =
    ValidationError string
  | ValueError string
  | AuthError string
  | HttpError http_error
  | AttributeError string
  | OtherError string
  | Exit int

section \<open>Library functions\<close>

datatype json =
    JNull
  | JBool bool
  | JInt int
  | JFloat real
  | JString string
  | JArray "json list"
  | JObject "(string \<times> json) list"

text \<open>
  The parts of the Python library that are taken as given: the validation of a bracketed
  host inside \<open>urllib.parse.urlsplit\<close> (\<open>None\<close> when it passes, otherwise the message of
  the \<open>ValueError\<close>), the UTF-8 decoding with replacement that \<open>urllib.parse.unquote\<close>
  applies to unescaped bytes, \<open>json.loads(content.decode("utf-8"))\<close> (\<open>None\<close> when either
  call raises) and \<open>str\<close> of a value that is not a string.
\<close>

record pylib =
  check_bracketed_host :: "string \<Rightarrow> string option"
  decode_utf8 :: "string \<Rightarrow> string"
  json_loads :: "string \<Rightarrow> json option"
  py_str :: "json \<Rightarrow> string"

subsection \<open>urllib.parse.urlparse\<close>

record ParseResult =
  scheme :: string
  netloc :: string
  path :: string
  params :: string
  query :: string
  fragment :: string

definition C0_CONTROL_OR_SPACE :: "char \<Rightarrow> bool" where
  "C0_CONTROL_OR_SPACE c = (code c \<le> 32)"

definition UNSAFE_URL_BYTES_TO_REMOVE :: "char list" where
  "UNSAFE_URL_BYTES_TO_REMOVE = [CHR 0x09, CHR 0x0D, CHR 0x0A]"

definition isascii_alpha :: "char \<Rightarrow> bool" where
  "isascii_alpha c = (let n = code c in (65 \<le> n \<and> n \<le> 90) \<or> (97 \<le> n \<and> n \<le> 122))"

definition isdigit :: "char \<Rightarrow> bool" where
  "isdigit c = (let n = code c in 48 \<le> n \<and> n \<le> 57)"

definition scheme_chars :: "char \<Rightarrow> bool" where
  "scheme_chars c = (isascii_alpha c \<or> isdigit c \<or> c \<in> set ''+-.'')"

definition uses_params :: "string list" where
  "uses_params = ['''', ''ftp'', ''hdl'', ''prospero'', ''http'', ''imap'',
                  ''https'', ''shttp'', ''rtsp'', ''rtsps'', ''rtspu'', ''sip'',
                  ''sips'', ''mms'', ''sftp'', ''tel'']"

definition split_scheme :: "string \<Rightarrow> string \<times> string" where
  \<comment> \<open>the scheme of \<open>urlsplit\<close>: the text before the first colon when it starts with a
      letter and holds scheme characters only\<close>
  "split_scheme url =
     (let pre = takeWhile (\<lambda>c. c \<noteq> CHR '':'') url
      in if CHR '':'' \<in> set url \<and> pre \<noteq> [] \<and> isascii_alpha (hd url) \<and> list_all scheme_chars pre
         then (lower pre, drop (length pre + 1) url)
         else ([], url))"

definition netloc_delim :: "char \<Rightarrow> bool" where
  "netloc_delim c = (c \<in> set ''/?#'')"

definition splitnetloc :: "string \<Rightarrow> string \<times> string" where
  \<comment> \<open>\<open>_splitnetloc(url, 2)\<close>\<close>
  "splitnetloc url =
     (takeWhile (\<lambda>c. \<not> netloc_delim c) (drop 2 url),
      dropWhile (\<lambda>c. \<not> netloc_delim c) (drop 2 url))"

definition bracketed_host :: "string \<Rightarrow> string" where
  \<comment> \<open>\<open>netloc.partition('[')[2].partition(']')[0]\<close>\<close>
  "bracketed_host nl =
     takeWhile (\<lambda>c. c \<noteq> CHR '']'') (drop 1 (dropWhile (\<lambda>c. c \<noteq> CHR ''['') nl))"

definition split_netloc_checked :: "pylib \<Rightarrow> string \<Rightarrow> string + (string \<times> string)" where
  "split_netloc_checked L url =
     (if take 2 url = ''//'' then
        (let (nl, rest) = splitnetloc url
         in if (CHR ''['' \<in> set nl \<and> CHR '']'' \<notin> set nl) \<or> (CHR '']'' \<in> set nl \<and> CHR ''['' \<notin> set nl)
            then Inl ''Invalid IPv6 URL''
            else if CHR ''['' \<in> set nl \<and> CHR '']'' \<in> set nl
            then (case check_bracketed_host L (bracketed_host nl) of
                    Some m \<Rightarrow> Inl m
                  | None \<Rightarrow> Inr (nl, rest))
            else Inr (nl, rest))
      else Inr ([], url))"

definition urlsplit :: "pylib \<Rightarrow> string \<Rightarrow> string + (string \<times> string \<times> string \<times> string \<times> string)" where
  \<comment> \<open>\<open>Inl m\<close> is \<open>ValueError(m)\<close>. The last check of the source, \<open>_checknetloc\<close>, raises
      only when the NFKC form of a character of the netloc holds one of \<open>/?#@:\<close>, which no
      character below 256 does.\<close>
  "urlsplit L url0 =
     (let url1 = dropWhile C0_CONTROL_OR_SPACE url0;
          url2 = filter (\<lambda>c. c \<notin> set UNSAFE_URL_BYTES_TO_REMOVE) url1;
          (sch, url3) = split_scheme url2
      in case split_netloc_checked L url3 of
           Inl m \<Rightarrow> Inl m
         | Inr (nl, url4) \<Rightarrow>
             (let (url5, frag) = (if CHR ''#'' \<in> set url4 then split1 (CHR ''#'') url4 else (url4, []));
                  (url6, q) = (if CHR ''?'' \<in> set url5 then split1 (CHR ''?'') url5 else (url5, []))
              in Inr (sch, nl, url6, q, frag)))"

definition splitparams :: "string \<Rightarrow> string \<times> string" where
  \<comment> \<open>\<open>_splitparams\<close>: the first semicolon after the last slash\<close>
  "splitparams url =
     (if CHR ''/'' \<in> set url then
        (let k = length url - 1 - length (takeWhile (\<lambda>c. c \<noteq> CHR ''/'') (rev url));
             seg = drop k url
         in if CHR '';'' \<in> set seg
            then (let i = k + length (takeWhile (\<lambda>c. c \<noteq> CHR '';'') seg)
                  in (take i url, drop (i + 1) url))
            else (url, []))
      else split1 (CHR '';'') url)"

definition urlparse :: "pylib \<Rightarrow> string \<Rightarrow> string + ParseResult" where
  "urlparse L url =
     (case urlsplit L url of
        Inl m \<Rightarrow> Inl m
      | Inr (sch, nl, u, q, frag) \<Rightarrow>
          (let (u', ps) = (if sch \<in> set uses_params \<and> CHR '';'' \<in> set u then splitparams u else (u, []))
           in Inr \<lparr>scheme = sch, netloc = nl, path = u', params = ps, query = q, fragment = frag\<rparr>))"

definition hostinfo :: "string \<Rightarrow> string" where
  \<comment> \<open>\<open>netloc.rpartition('@')[2]\<close>: the network location without its user information\<close>
  "hostinfo nl = rev (takeWhile (\<lambda>c. c \<noteq> CHR ''@'') (rev nl))"

definition hostname :: "ParseResult \<Rightarrow> string option" where
  \<comment> \<open>the property \<open>hostname\<close> of a parse result: the host of the URL, without user
      information and port, in lower case (a zone after \<open>%\<close> keeps its case); the
      resolver does not read it\<close>
  "hostname p =
     (let hi = hostinfo (netloc p);
          h = (if CHR ''['' \<in> set hi
               then takeWhile (\<lambda>c. c \<noteq> CHR '']'') (drop 1 (dropWhile (\<lambda>c. c \<noteq> CHR ''['') hi))
               else takeWhile (\<lambda>c. c \<noteq> CHR '':'') hi)
      in if h = [] then None
         else Some (lower (takeWhile (\<lambda>c. c \<noteq> CHR ''%'') h) @ dropWhile (\<lambda>c. c \<noteq> CHR ''%'') h))"

subsection \<open>urllib.parse.parse_qs\<close>

definition ishex :: "char \<Rightarrow> bool" where
  "ishex c = (c \<in> set ''0123456789ABCDEFabcdef'')"

definition hexval :: "char \<Rightarrow> nat" where
  "hexval c =
     (let n = code c
      in if n \<le> 57 then n - 48 else if n \<le> 70 then n - 55 else n - 87)"

definition unquote_item :: "string \<Rightarrow> string" where
  "unquote_item item =
     (case item of
        a # b # rest \<Rightarrow>
          (if ishex a \<and> ishex b then char_of (16 * hexval a + hexval b) # rest
           else CHR ''%'' # item)
      | _ \<Rightarrow> CHR ''%'' # item)"

definition unquote_to_bytes :: "string \<Rightarrow> string" where
  "unquote_to_bytes s =
     (case split_on (CHR ''%'') s of
        [] \<Rightarrow> []
      | b # bits \<Rightarrow> b @ concat (map unquote_item bits))"

definition unquote_run :: "pylib \<Rightarrow> string \<Rightarrow> string" where
  "unquote_run L run = (if run = [] then [] else decode_utf8 L (unquote_to_bytes run))"

fun unquote_runs :: "pylib \<Rightarrow> string \<Rightarrow> string \<Rightarrow> string" where
  \<comment> \<open>the runs of ASCII characters are unescaped and decoded, the other characters kept;
      \<open>run\<close> is the current ASCII run, reversed\<close>
  "unquote_runs L run [] = unquote_run L (rev run)"
| "unquote_runs L run (c # cs) =
     (if code c < 128 then unquote_runs L (c # run) cs
      else unquote_run L (rev run) @ c # unquote_runs L [] cs)"

definition unquote :: "pylib \<Rightarrow> string \<Rightarrow> string" where
  "unquote L s = (if CHR ''%'' \<notin> set s then s else unquote_runs L [] s)"

definition unquote_plus :: "pylib \<Rightarrow> string \<Rightarrow> string" where
  "unquote_plus L s = unquote L (map (\<lambda>c. if c = CHR ''+'' then CHR '' '' else c) s)"

definition parse_qsl :: "pylib \<Rightarrow> string \<Rightarrow> (string \<times> string) list" where
  "parse_qsl L qs =
     (if qs = [] then []
      else concat (map (\<lambda>name_value.
             if name_value = [] then []
             else (let name = takeWhile (\<lambda>c. c \<noteq> CHR ''='') name_value;
                       val = drop 1 (dropWhile (\<lambda>c. c \<noteq> CHR ''='') name_value)
                   in if val = [] then [] else [(unquote_plus L name, unquote_plus L val)]))
           (split_on (CHR ''&'') qs)))"

definition parse_qs :: "pylib \<Rightarrow> string \<Rightarrow> (string \<rightharpoonup> string list)" where
  \<comment> \<open>the dictionary from each name to its values, in the order of the query\<close>
  "parse_qs L qs =
     (\<lambda>k. let vs = map snd (filter (\<lambda>nv. fst nv = k) (parse_qsl L qs))
          in if vs = [] then None else Some vs)"

section \<open>Locator resolver (ids.py)\<close>

definition is_id_char :: "char \<Rightarrow> bool" where
  \<comment> \<open>the character class \<open>[A-Za-z0-9_-]\<close>\<close>
  "is_id_char c = (isascii_alpha c \<or> isdigit c \<or> c = CHR ''_'' \<or> c = CHR ''-'')"

definition DRIVE_ID_RE_fullmatch :: "string \<Rightarrow> bool" where
  \<comment> \<open>\<open>_DRIVE_ID_RE.fullmatch(s)\<close> for \<open>^[A-Za-z0-9_-]{10,}$\<close>\<close>
  "DRIVE_ID_RE_fullmatch s = (10 \<le> length s \<and> list_all is_id_char s)"

definition match_id_at :: "string \<Rightarrow> string \<Rightarrow> string option" where
  \<comment> \<open>a match of \<open>pre([A-Za-z0-9_-]{10,})\<close> at the start of \<open>s\<close>: the greedy group takes
      the longest run of ID characters\<close>
  "match_id_at pre s =
     (if startswith s pre then
        (let g = takeWhile is_id_char (drop (length pre) s)
         in if 10 \<le> length g then Some g else None)
      else None)"

fun search_id :: "string \<Rightarrow> string \<Rightarrow> string option" where
  \<comment> \<open>\<open>regex.search(s)\<close> for \<open>pre([A-Za-z0-9_-]{10,})\<close> with a non-empty literal \<open>pre\<close>:
      group 1 of the leftmost match\<close>
  "search_id pre [] = None"
| "search_id pre (c # cs) =
     (case match_id_at pre (c # cs) of
        Some g \<Rightarrow> Some g
      | None \<Rightarrow> search_id pre cs)"

definition PATH_D_RE :: "string \<Rightarrow> string option" where
  "PATH_D_RE = search_id ''/d/''"

definition PATH_FILE_D_RE :: "string \<Rightarrow> string option" where
  "PATH_FILE_D_RE = search_id ''/file/d/''"

definition PATH_FOLDER_RE :: "string \<Rightarrow> string option" where
  "PATH_FOLDER_RE = search_id ''/drive/folders/''"

fun first_match :: "(string \<Rightarrow> string option) list \<Rightarrow> string \<Rightarrow> string option" where
  \<comment> \<open>the loop over the path patterns: group 1 of the first pattern that matches\<close>
  "first_match [] p = None"
| "first_match (regex # rest) p =
     (case regex p of Some g \<Rightarrow> Some g | None \<Rightarrow> first_match rest p)"

definition resolve_drive_id :: "pylib \<Rightarrow> string option \<Rightarrow> string \<Rightarrow> exn + string" where
  \<comment> \<open>\<open>_resolve_drive_id\<close>. The parameter is annotated \<open>str\<close>; on \<open>None\<close> the first
      statement, \<open>value.strip()\<close>, raises \<open>AttributeError\<close>.\<close>
  "resolve_drive_id L value expected =
     (case value of
        None \<Rightarrow> Inl (AttributeError (CHR 0x27 # ''NoneType'' @ CHR 0x27 # '' object has no attribute '' @ CHR 0x27 # ''strip'' @ [CHR 0x27]))
      | Some v \<Rightarrow>
          (let raw = strip v
           in if raw = [] then Inl (ValidationError ''Value cannot be empty.'')
              else if DRIVE_ID_RE_fullmatch raw then Inr raw
              else (case urlparse L raw of
                      Inl m \<Rightarrow> Inl (ValueError m)
                    | Inr parsed \<Rightarrow>
                        if scheme parsed \<notin> {''http'', ''https''}
                        then Inl (ValidationError (''Expected a Google Drive '' @ expected @ '' ID or link.''))
                        else (let host = lower (netloc parsed)
                              in if \<not> endswith host ''google.com''
                                 then Inl (ValidationError (''Expected a Google Drive '' @ expected @ '' link.''))
                                 else (let p = path parsed;
                                           q = parse_qs L (query parsed)
                                       in if expected = ''folder'' \<and> contains ''/file/'' p
                                          then Inl (ValidationError ''Expected folder link/ID, but file link was provided.'')
                                          else if expected = ''file'' \<and> contains ''/folders/'' p
                                          then Inl (ValidationError ''Expected file link/ID, but folder link was provided.'')
                                          else (case first_match [PATH_FOLDER_RE, PATH_FILE_D_RE, PATH_D_RE] p of
                                                  Some g \<Rightarrow> Inr g
                                                | None \<Rightarrow>
                                                    (case q ''id'' of
                                                       Some (q0 # qr) \<Rightarrow>
                                                         if DRIVE_ID_RE_fullmatch q0 then Inr q0
                                                         else Inl (ValidationError (''Could not extract '' @ expected @ '' ID from value: '' @ v))
                                                     | _ \<Rightarrow> Inl (ValidationError (''Could not extract '' @ expected @ '' ID from value: '' @ v)))))))))"

definition resolve_folder_id :: "pylib \<Rightarrow> string option \<Rightarrow> exn + string" where
  "resolve_folder_id L value =
     (case value of
        None \<Rightarrow> Inr ''root''
      | Some v \<Rightarrow> resolve_drive_id L (Some v) ''folder'')"

definition resolve_file_id :: "pylib \<Rightarrow> string option \<Rightarrow> exn + string" where
  "resolve_file_id L value = resolve_drive_id L value ''file''"

section \<open>Values and formatting\<close>

type_synonym pydict = "(string \<times> json) list"

fun truthy :: "json \<Rightarrow> bool" where
  \<comment> \<open>the truth value Python gives a value in \<open>if v:\<close> and \<open>v or w\<close>\<close>
  "truthy JNull = False"
| "truthy (JBool b) = b"
| "truthy (JInt i) = (i \<noteq> 0)"
| "truthy (JFloat r) = (r \<noteq> 0)"
| "truthy (JString s) = (s \<noteq> [])"
| "truthy (JArray xs) = (xs \<noteq> [])"
| "truthy (JObject kvs) = (kvs \<noteq> [])"

fun type_name :: "json \<Rightarrow> string" where
  "type_name JNull = ''NoneType''"
| "type_name (JBool b) = ''bool''"
| "type_name (JInt i) = ''int''"
| "type_name (JFloat r) = ''float''"
| "type_name (JString s) = ''str''"
| "type_name (JArray xs) = ''list''"
| "type_name (JObject kvs) = ''dict''"

definition py_get :: "pydict \<Rightarrow> string \<Rightarrow> json" where
  \<comment> \<open>\<open>d.get(k)\<close>: \<open>None\<close> for a missing key\<close>
  "py_get d k = (case map_of d k of None \<Rightarrow> JNull | Some v \<Rightarrow> v)"

definition py_or :: "json \<Rightarrow> json \<Rightarrow> json" where
  "py_or a b = (if truthy a then a else b)"

fun str_nat :: "nat \<Rightarrow> string" where
  "str_nat n =
     (if n < 10 then [char_of (48 + n)]
      else str_nat (n div 10) @ [char_of (48 + n mod 10)])"

declare str_nat.simps [simp del]

definition str_int :: "int \<Rightarrow> string" where
  "str_int i = (if i < 0 then CHR ''-'' # str_nat (nat (- i)) else str_nat (nat i))"

definition format_value :: "pylib \<Rightarrow> json \<Rightarrow> string" where
  \<comment> \<open>a value inside an f-string\<close>
  "format_value L v =
     (case v of
        JString s \<Rightarrow> s
      | JNull \<Rightarrow> ''None''
      | JBool b \<Rightarrow> (if b then ''True'' else ''False'')
      | JInt i \<Rightarrow> str_int i
      | _ \<Rightarrow> py_str L v)"

fun str_exn :: "exn \<Rightarrow> string" where
  \<comment> \<open>\<open>str(exc)\<close>\<close>
  "str_exn (ValidationError m) = m"
| "str_exn (ValueError m) = m"
| "str_exn (AuthError m) = m"
| "str_exn (HttpError h) = http_str h"
| "str_exn (AttributeError m) = m"
| "str_exn (OtherError m) = m"
| "str_exn (Exit n) = []"

section \<open>Processes and collaborators\<close>

datatype event =
    StoredCredentialsInfo           \<comment> \<open>\<open>stored_credentials_info()\<close>\<close>
  | LoadCredentials bool            \<comment> \<open>\<open>load_credentials(write)\<close>\<close>
  | BuildService                    \<comment> \<open>\<open>googleapiclient.discovery.build\<close>\<close>
  | Execute string pydict           \<comment> \<open>\<open>execute()\<close> of a request: its method and arguments\<close>
  | NextChunk                       \<comment> \<open>\<open>downloader.next_chunk()\<close>\<close>
  | FileSystem string string        \<comment> \<open>an operation on a local path\<close>

record world =
  trace :: "event list"     \<comment> \<open>the calls made to the collaborators, in order\<close>
  stdout :: "string list"   \<comment> \<open>the lines written to standard output\<close>
  stderr :: "string list"   \<comment> \<open>the lines written to standard error\<close>

record cred_info =
  cred_path :: string
  scopes :: "string list"
  has_refresh_token :: bool
  client_id :: "string option"

text \<open>
  Modelled from the spec: \<open>gdrive_cli/auth.py\<close> and \<open>gdrive_cli/output.py\<close> are not among
  the sources. The credential collaborator fails with \<open>AuthError\<close> only (\<open>Some m\<close>,
  \<open>Inl m\<close>) and \<open>stored_credentials_info\<close> returns an optional record with a path; the
  output collaborator produces a printable string for the formats \<open>table\<close> and \<open>json\<close>,
  and for \<open>csv\<close> fails without a destination path or writes the file and returns a
  confirmation.

  The record below holds the answers of the collaborators outside the core: the credential
  store, the remote API, the file system and the renderer. Each answer may depend on the
  calls made so far.
\<close>

record env =
  python_version :: string
  credentials_file :: string
  stored_credentials_info_result :: "event list \<Rightarrow> string + cred_info option"
  load_credentials_result :: "event list \<Rightarrow> bool \<Rightarrow> string option"
  build_result :: "event list \<Rightarrow> exn option"
  execute_result :: "event list \<Rightarrow> string \<Rightarrow> pydict \<Rightarrow> exn + pydict"
  next_chunk_result :: "event list \<Rightarrow> exn + bool"
  file_system_result :: "event list \<Rightarrow> string \<Rightarrow> string \<Rightarrow> exn option"
  render_text :: "pydict list \<Rightarrow> string \<Rightarrow> string"
  csv_path_missing :: string
  csv_written :: "pydict list \<Rightarrow> string \<Rightarrow> string"
  path_name :: "string \<Rightarrow> string"
  path_parent :: "string \<Rightarrow> string"
  path_str :: "string \<Rightarrow> string"

type_synonym 'a prog = "world \<Rightarrow> ((exn + 'a) \<times> world) option"

definition return_prog :: "'a \<Rightarrow> 'a prog" where
  "return_prog x = (\<lambda>w. Some (Inr x, w))"

definition raise_prog :: "exn \<Rightarrow> 'a prog" where
  "raise_prog e = (\<lambda>w. Some (Inl e, w))"

definition lift :: "exn + 'a \<Rightarrow> 'a prog" where
  \<comment> \<open>a computation without effects that returns or raises\<close>
  "lift r = (\<lambda>w. Some (r, w))"

definition bind_prog :: "'a prog \<Rightarrow> ('a \<Rightarrow> 'b prog) \<Rightarrow> 'b prog" where
  \<comment> \<open>sequencing: an exception of the first statement skips the rest\<close>
  "bind_prog m f =
     (\<lambda>w. case m w of
            None \<Rightarrow> None
          | Some (Inl e, w1) \<Rightarrow> Some (Inl e, w1)
          | Some (Inr x, w1) \<Rightarrow> f x w1)"

definition log :: "event \<Rightarrow> world \<Rightarrow> world" where
  "log ev w = w\<lparr>trace := trace w @ [ev]\<rparr>"

definition call :: "event \<Rightarrow> (event list \<Rightarrow> exn + 'a) \<Rightarrow> 'a prog" where
  \<comment> \<open>a call to a collaborator: recorded, then answered\<close>
  "call ev answer = (\<lambda>w. Some (answer (trace w), log ev w))"

definition failing :: "exn option \<Rightarrow> exn + unit" where
  "failing r = (case r of None \<Rightarrow> Inr () | Some e \<Rightarrow> Inl e)"

definition echo :: "string \<Rightarrow> unit prog" where
  \<comment> \<open>\<open>click.echo(s)\<close>\<close>
  "echo s = (\<lambda>w. Some (Inr (), w\<lparr>stdout := stdout w @ [s]\<rparr>))"

definition echo_err :: "string \<Rightarrow> world \<Rightarrow> world" where
  \<comment> \<open>\<open>click.echo(s, err=True)\<close>\<close>
  "echo_err s w = w\<lparr>stderr := stderr w @ [s]\<rparr>"

definition exit_code :: "exn + 'a \<Rightarrow> int" where
  \<comment> \<open>the status of the process: click exits with the code of \<open>Exit\<close>; any other
      exception that leaves the command ends the interpreter with status 1\<close>
  "exit_code r = (case r of Inr v \<Rightarrow> 0 | Inl (Exit n) \<Rightarrow> n | Inl e \<Rightarrow> 1)"

definition load_credentials :: "env \<Rightarrow> bool \<Rightarrow> unit prog" where
  "load_credentials E write =
     call (LoadCredentials write)
       (\<lambda>tr. case load_credentials_result E tr write of None \<Rightarrow> Inr () | Some m \<Rightarrow> Inl (AuthError m))"

definition build_drive_service :: "env \<Rightarrow> bool \<Rightarrow> unit prog" where
  \<comment> \<open>client.py: the credentials are loaded, then the service is built\<close>
  "build_drive_service E write =
     bind_prog (load_credentials E write) (\<lambda>credentials.
       call BuildService (\<lambda>tr. failing (build_result E tr)))"

definition execute :: "env \<Rightarrow> string \<Rightarrow> pydict \<Rightarrow> pydict prog" where
  \<comment> \<open>\<open>service.files().method(**kwargs).execute()\<close>; of the arguments, those that
      vary with the command are kept\<close>
  "execute E method kwargs = call (Execute method kwargs) (\<lambda>tr. execute_result E tr method kwargs)"

definition file_system :: "env \<Rightarrow> string \<Rightarrow> string \<Rightarrow> unit prog" where
  "file_system E operation p =
     call (FileSystem operation p) (\<lambda>tr. failing (file_system_result E tr operation p))"

definition render_records :: "env \<Rightarrow> pydict list \<Rightarrow> string \<Rightarrow> string option \<Rightarrow> string prog" where
  \<comment> \<open>Modelled from the spec: \<open>gdrive_cli/output.py\<close> is not among the sources. A
      printable string for \<open>table\<close> and \<open>json\<close>; for \<open>csv\<close> an error without a
      destination path, otherwise the file is written and a confirmation returned.\<close>
  "render_records E records output_format csv_path =
     (if output_format = ''csv'' then
        (case csv_path of
           None \<Rightarrow> raise_prog (ValueError (csv_path_missing E))
         | Some p \<Rightarrow>
             bind_prog (file_system E ''write'' p) (\<lambda>u. return_prog (csv_written E records p)))
      else return_prog (render_text E records output_format))"

section \<open>Command outcome classifier (cli.py)\<close>

definition USER_INPUT_EXIT_CODE :: int where
  "USER_INPUT_EXIT_CODE = 2"

definition AUTH_EXIT_CODE :: int where
  "AUTH_EXIT_CODE = 3"

definition API_EXIT_CODE :: int where
  "API_EXIT_CODE = 4"

datatype FailureClassification = InvalidInput | AuthenticationFailure | RemoteApiFailure

fun classify :: "exn \<Rightarrow> FailureClassification option" where
  \<comment> \<open>the \<open>except\<close> clause of \<open>command_errors\<close> that catches the exception\<close>
  "classify (ValidationError m) = Some InvalidInput"
| "classify (ValueError m) = Some InvalidInput"
| "classify (AuthError m) = Some AuthenticationFailure"
| "classify (HttpError h) = Some RemoteApiFailure"
| "classify e = None"

definition extract_http_error :: "pylib \<Rightarrow> http_error \<Rightarrow> exn + json" where
  \<comment> \<open>\<open>_extract_http_error\<close>; \<open>error.get\<close> raises \<open>AttributeError\<close> when
      \<open>error\<close> is not a dictionary\<close>
  "extract_http_error L exc =
     (case content exc of
        None \<Rightarrow> Inr (JString (http_str exc))
      | Some c \<Rightarrow>
          if c = [] then Inr (JString (http_str exc))
          else (case json_loads L c of
                  None \<Rightarrow> Inr (JString (http_str exc))
                | Some payload \<Rightarrow>
                    (case payload of
                       JObject kvs \<Rightarrow>
                         (case (case map_of kvs ''error'' of None \<Rightarrow> JObject [] | Some e \<Rightarrow> e) of
                            JObject err \<Rightarrow>
                              (let message = py_get err ''message''
                               in if truthy message then Inr message
                                  else Inr (JString (http_str exc)))
                          | other \<Rightarrow>
                              Inl (AttributeError
                                    (CHR 0x27 # type_name other @ CHR 0x27 # '' object has no attribute ''
                                      @ CHR 0x27 # ''get'' @ [CHR 0x27])))
                     | _ \<Rightarrow> Inr (JString (http_str exc)))))"

definition status_str :: "http_error \<Rightarrow> string" where
  \<comment> \<open>\<open>getattr(exc.resp, "status", "unknown")\<close>, formatted\<close>
  "status_str exc = (case resp_status exc of None \<Rightarrow> ''unknown'' | Some n \<Rightarrow> str_int n)"

definition handle :: "pylib \<Rightarrow> exn \<Rightarrow> world \<Rightarrow> (exn + 'a) \<times> world" where
  \<comment> \<open>the \<open>except\<close> clauses of the wrapper, in their order\<close>
  "handle L e w =
     (case e of
        ValidationError m \<Rightarrow> (Inl (Exit USER_INPUT_EXIT_CODE), echo_err (''Error: '' @ m) w)
      | ValueError m \<Rightarrow> (Inl (Exit USER_INPUT_EXIT_CODE), echo_err (''Error: '' @ m) w)
      | AuthError m \<Rightarrow> (Inl (Exit AUTH_EXIT_CODE), echo_err (''Auth error: '' @ m) w)
      | HttpError exc \<Rightarrow>
          (case extract_http_error L exc of
             Inl e' \<Rightarrow> (Inl e', w)
           | Inr message \<Rightarrow>
               (Inl (Exit API_EXIT_CODE),
                echo_err (''API error ('' @ status_str exc @ ''): '' @ format_value L message) w))
      | _ \<Rightarrow> (Inl e, w))"

definition command_errors :: "pylib \<Rightarrow> 'a prog \<Rightarrow> 'a prog" where
  "command_errors L func =
     (\<lambda>w. case func w of
            None \<Rightarrow> None
          | Some (Inr v, w1) \<Rightarrow> Some (Inr v, w1)
          | Some (Inl e, w1) \<Rightarrow> Some (handle L e w1))"

section \<open>Commands (cli.py)\<close>

fun iterate :: "json \<Rightarrow> exn + json list" where
  \<comment> \<open>the items a \<open>for\<close> loop draws from a value\<close>
  "iterate (JArray xs) = Inr xs"
| "iterate (JString s) = Inr (map (\<lambda>c. JString [c]) s)"
| "iterate (JObject kvs) = Inr (map (\<lambda>kv. JString (fst kv)) kvs)"
| "iterate v = Inl (OtherError (CHR 0x27 # type_name v @ CHR 0x27 # '' object is not iterable''))"

definition no_get :: "json \<Rightarrow> exn" where
  "no_get v =
     AttributeError (CHR 0x27 # type_name v @ CHR 0x27 # '' object has no attribute ''
       @ CHR 0x27 # ''get'' @ [CHR 0x27])"

definition listing_record :: "pydict \<Rightarrow> pydict" where
  "listing_record item =
     [(''id'', py_get item ''id''), (''name'', py_get item ''name''),
      (''mimeType'', py_get item ''mimeType''), (''size'', py_get item ''size''),
      (''modifiedTime'', py_get item ''modifiedTime''), (''trashed'', py_get item ''trashed'')]"

fun listing_records :: "json list \<Rightarrow> exn + pydict list" where
  \<comment> \<open>the list comprehension of \<open>list_directory\<close>\<close>
  "listing_records [] = Inr []"
| "listing_records (JObject item # rest) =
     (case listing_records rest of
        Inl e \<Rightarrow> Inl e
      | Inr rs \<Rightarrow> Inr (listing_record item # rs))"
| "listing_records (v # rest) = Inl (no_get v)"

definition get_default :: "pydict \<Rightarrow> string \<Rightarrow> json \<Rightarrow> json" where
  \<comment> \<open>\<open>d.get(k, default)\<close>\<close>
  "get_default d k dflt = (case map_of d k of None \<Rightarrow> dflt | Some v \<Rightarrow> v)"

definition quoted :: "string \<Rightarrow> string" where
  "quoted s = CHR 0x27 # s @ [CHR 0x27]"

definition list_directory :: "pylib \<Rightarrow> env \<Rightarrow> string option \<Rightarrow> string \<Rightarrow> string option \<Rightarrow> unit prog" where
  "list_directory L E folder_value output_format csv_path =
     command_errors L
       (bind_prog (lift (resolve_folder_id L folder_value)) (\<lambda>folder_id.
        bind_prog (build_drive_service E False) (\<lambda>service.
        bind_prog (execute E ''list''
                     [(''q'', JString (quoted folder_id @ '' in parents and trashed = false''))]) (\<lambda>response.
        bind_prog (lift (iterate (get_default response ''files'' (JArray [])))) (\<lambda>entries.
        bind_prog (lift (listing_records entries)) (\<lambda>records.
        bind_prog (render_records E records output_format csv_path) (\<lambda>text.
        echo text)))))))"

definition upload_file :: "pylib \<Rightarrow> env \<Rightarrow> string \<Rightarrow> string option \<Rightarrow> string \<Rightarrow> unit prog" where
  "upload_file L E local_path folder_value output_format =
     command_errors L
       (bind_prog (lift (resolve_folder_id L folder_value)) (\<lambda>folder_id.
        let file_name = path_name E local_path;
            metadata = (''name'', JString file_name) #
                       (if folder_id \<noteq> ''root'' then [(''parents'', JArray [JString folder_id])] else [])
        in bind_prog (file_system E ''open'' local_path) (\<lambda>media.
           bind_prog (build_drive_service E True) (\<lambda>service.
           bind_prog (execute E ''create'' [(''body'', JObject metadata)]) (\<lambda>created.
           if output_format = ''json''
           then bind_prog (render_records E [created] ''json'' None) echo
           else bind_prog (render_records E
                             [[(''id'', py_get created ''id''), (''name'', py_get created ''name''),
                               (''mimeType'', py_get created ''mimeType''), (''size'', py_get created ''size''),
                               (''webViewLink'', py_get created ''webViewLink'')]]
                             ''table'' None) echo)))))"

partial_function (option) download_loop :: "env \<Rightarrow> world \<Rightarrow> ((exn + unit) \<times> world) option" where
  \<comment> \<open>\<open>while not done: _, done = downloader.next_chunk()\<close>\<close>
  "download_loop E w =
     (case next_chunk_result E (trace w) of
        Inl e \<Rightarrow> Some (Inl e, log NextChunk w)
      | Inr done \<Rightarrow>
          if done then Some (Inr (), log NextChunk w)
          else download_loop E (log NextChunk w))"

definition as_path :: "env \<Rightarrow> json \<Rightarrow> exn + string" where
  \<comment> \<open>\<open>Path(v)\<close>, which takes a string\<close>
  "as_path E v =
     (case v of
        JString s \<Rightarrow> Inr (path_str E s)
      | _ \<Rightarrow> Inl (OtherError (''expected str, bytes or os.PathLike object, not '' @ type_name v)))"

definition download_file :: "pylib \<Rightarrow> env \<Rightarrow> string \<Rightarrow> string option \<Rightarrow> unit prog" where
  "download_file L E file_value output_path =
     command_errors L
       (bind_prog (lift (resolve_file_id L (Some file_value))) (\<lambda>file_id.
        bind_prog (build_drive_service E False) (\<lambda>service.
        bind_prog (execute E ''get'' [(''fileId'', JString file_id)]) (\<lambda>metadata.
        let shown = py_or (py_get metadata ''name'') (JString file_id)
        in bind_prog (lift (case output_path of
                              None \<Rightarrow> as_path E shown
                            | Some p \<Rightarrow> if p \<noteq> [] then Inr (path_str E p) else as_path E shown)) (\<lambda>destination.
           bind_prog (file_system E ''mkdir'' (path_parent E destination)) (\<lambda>u.
           bind_prog (file_system E ''open'' destination) (\<lambda>handle.
           bind_prog (download_loop E) (\<lambda>u.
           echo (''Downloaded '' @ format_value L shown @ '' to '' @ destination)))))))))"

definition trash_file :: "pylib \<Rightarrow> env \<Rightarrow> string \<Rightarrow> unit prog" where
  "trash_file L E file_value =
     command_errors L
       (bind_prog (lift (resolve_file_id L (Some file_value))) (\<lambda>file_id.
        bind_prog (build_drive_service E True) (\<lambda>service.
        bind_prog (execute E ''update''
                     [(''fileId'', JString file_id), (''body'', JObject [(''trashed'', JBool True)])]) (\<lambda>item.
        echo (''Moved to trash: '' @ format_value L (py_or (py_get item ''name'') (JString file_id))
                @ '' ('' @ format_value L (py_get item ''id'') @ '')'')))))"

section \<open>Diagnostics aggregator (cli.py)\<close>

definition check_record :: "string \<Rightarrow> string \<Rightarrow> string \<Rightarrow> pydict" where
  "check_record name status detail =
     [(''check'', JString name), (''status'', JString status), (''detail'', JString detail)]"








definition is_fail :: "pydict \<Rightarrow> bool" where
  "is_fail c = (py_get c ''status'' = JString ''fail'')"

definition is_warn :: "pydict \<Rightarrow> bool" where
  "is_warn c = (py_get c ''status'' = JString ''warn'')"

definition check_name :: "pydict \<Rightarrow> json" where
  "check_name c = py_get c ''check''"


section \<open>Classification of results and a sample library\<close>

definition failure_class :: "exn + 'a \<Rightarrow> FailureClassification option" where
  "failure_class r = (case r of Inl e \<Rightarrow> classify e | Inr v \<Rightarrow> None)"

text \<open>
  A library instance for concrete runs: every bracketed host passes, decoding keeps the
  bytes, and \<open>json.loads\<close> knows the two response bodies used below.
\<close>

definition lib0 :: pylib where
  \<open>lib0 =
     \<lparr>check_bracketed_host = (\<lambda>h. None),
      decode_utf8 = (\<lambda>s. s),
      json_loads = (\<lambda>s. if s = ''{"error":{"message":"File not found"}}''
                          then Some (JObject [(''error'', JObject [(''message'', JString ''File not found'')])])
                          else if s = ''{"error":"invalid_grant"}''
                          then Some (JObject [(''error'', JString ''invalid_grant'')])
                          else None),
      py_str = (\<lambda>v. ''?'')\<rparr>\<close>

section \<open>Links of the service\<close>

text \<open>
  The links of the service that the properties below speak of: a scheme, a host made of
  letters, digits, hyphens, underscores and dots that ends with the domain of the service,
  and the folder path or the file-detail path around an ID.
\<close>

definition host_char :: "char \<Rightarrow> bool" where
  "host_char c = (is_id_char c \<or> c = CHR ''.'')"

definition google_host :: "string \<Rightarrow> bool" where
  "google_host host = (list_all host_char host \<and> endswith (lower host) ''google.com'')"

definition folder_url :: "string \<Rightarrow> string \<Rightarrow> string \<Rightarrow> string" where
  "folder_url sch host i = sch @ ''://'' @ host @ ''/drive/folders/'' @ i"

definition file_url :: "string \<Rightarrow> string \<Rightarrow> string \<Rightarrow> string" where
  "file_url sch host i = sch @ ''://'' @ host @ ''/file/d/'' @ i @ ''/view''"

definition path_char :: "char \<Rightarrow> bool" where
  "path_char c = (is_id_char c \<or> c = CHR ''/'')"

section \<open>Sample inputs\<close>

text \<open>An empty process state and two remote failures.\<close>

definition world0 :: world where
  "world0 = \<lparr>trace = [], stdout = [], stderr = []\<rparr>"

definition not_found_404 :: http_error where
  \<open>not_found_404 =
     \<lparr>resp_status = Some 404,
      content = Some ''{"error":{"message":"File not found"}}'',
      http_str = ''<HttpError 404 "File not found">''\<rparr>\<close>

definition invalid_grant_400 :: http_error where
  \<open>invalid_grant_400 =
     \<lparr>resp_status = Some 400,
      content = Some ''{"error":"invalid_grant"}'',
      http_str = ''<HttpError 400 "Bad Request">''\<rparr>\<close>

text \<open>
  Sample collaborators: one whose calls all succeed with no stored credentials, and one
  whose credentials cannot be loaded.
\<close>

definition env_ok :: env where
  "env_ok =
     \<lparr>python_version = ''3.11.10'',
      credentials_file = ''credentials.json'',
      stored_credentials_info_result = (\<lambda>tr. Inr None),
      load_credentials_result = (\<lambda>tr write. None),
      build_result = (\<lambda>tr. None),
      execute_result = (\<lambda>tr method kwargs. Inr [(''files'', JArray [JObject [(''id'', JString ''a'')]])]),
      next_chunk_result = (\<lambda>tr. Inr True),
      file_system_result = (\<lambda>tr operation p. None),
      render_text = (\<lambda>records output_format.
        concat (map (\<lambda>c. format_value lib0 (py_get c ''check'') @ '': '' @
                         format_value lib0 (py_get c ''status'') @ ''; '') records)),
      csv_path_missing = ''csv_path is required'',
      csv_written = (\<lambda>records p. ''Wrote rows''),
      path_name = (\<lambda>p. p),
      path_parent = (\<lambda>p. ''.''),
      path_str = (\<lambda>p. p)\<rparr>"


definition fail_count :: "pydict list \<Rightarrow> nat" where
  "fail_count checks = length (filter is_fail checks)"

section \<open>Properties of the locator resolver\<close>

lemma id_char_not_space: "is_id_char c \<Longrightarrow> \<not> isspace c"
  by (auto simp: is_id_char_def isspace_def isascii_alpha_def isdigit_def code_def Let_def)

lemma strip_same:
  assumes "s \<noteq> []" and "\<not> isspace (hd s)" and "\<not> isspace (last s)"
  shows "strip s = s"
proof -
  have "dropWhile isspace s = s"
    using assms by (simp add: dropWhile_eq_self_iff)
  moreover have "dropWhile isspace (rev s) = rev s"
    using assms by (simp add: dropWhile_eq_self_iff hd_rev)
  ultimately show ?thesis
    by (simp add: strip_def)
qed

lemma fullmatch_strip:
  assumes "DRIVE_ID_RE_fullmatch s"
  shows "strip s = s"
proof -
  from assms have ne: "s \<noteq> []" and all: "\<forall>c\<in>set s. is_id_char c"
    by (auto simp: DRIVE_ID_RE_fullmatch_def list_all_iff)
  from ne all have "is_id_char (hd s)" and "is_id_char (last s)"
    by simp_all
  then show ?thesis
    using ne by (intro strip_same id_char_not_space)
qed

lemma root_parse: "urlparse L ''root'' = Inr \<lparr>scheme = [], netloc = [], path = ''root'', params = [], query = [], fragment = []\<rparr>"
  by (simp add: urlparse_def urlsplit_def split_scheme_def C0_CONTROL_OR_SPACE_def code_def UNSAFE_URL_BYTES_TO_REMOVE_def split_netloc_checked_def uses_params_def)

lemma root_strip: "strip ''root'' = ''root''"
  by (simp add: strip_def isspace_def code_def)

lemma root_fails: "resolve_drive_id L (Some ''root'') expected = Inl (ValidationError (''Expected a Google Drive '' @ expected @ '' ID or link.''))"
  by (simp add: resolve_drive_id_def root_strip root_parse DRIVE_ID_RE_fullmatch_def)

lemma resolve_id:
  assumes "DRIVE_ID_RE_fullmatch s"
  shows "resolve_drive_id L (Some s) expected = Inr s"
proof -
  have "strip s = s" using assms by (rule fullmatch_strip)
  moreover have "s \<noteq> []" using assms by (auto simp: DRIVE_ID_RE_fullmatch_def)
  ultimately show ?thesis
    using assms by (simp add: resolve_drive_id_def)
qed

text \<open>
  C6: a string of the canonical-ID shape (letters, digits, underscore, hyphen; at least
  10 characters) resolves to itself, unchanged, as a folder and as a file.
\<close>

theorem canonical_id_resolves_to_itself:
  assumes "DRIVE_ID_RE_fullmatch s"
  shows "resolve_folder_id L (Some s) = Inr s \<and> resolve_file_id L (Some s) = Inr s"
  using assms by (simp add: resolve_folder_id_def resolve_file_id_def resolve_id)

theorem canonical_id_resolves_to_itself_witness:
  "DRIVE_ID_RE_fullmatch ''1AbcdefGhIjKlmNop'' \<and>
   resolve_folder_id lib0 (Some ''1AbcdefGhIjKlmNop'') = Inr ''1AbcdefGhIjKlmNop'' \<and>
   resolve_file_id lib0 (Some ''1AbcdefGhIjKlmNop'') = Inr ''1AbcdefGhIjKlmNop''"
proof -
  have h: "DRIVE_ID_RE_fullmatch ''1AbcdefGhIjKlmNop''"
    by (simp add: DRIVE_ID_RE_fullmatch_def is_id_char_def isascii_alpha_def isdigit_def code_def)
  show ?thesis
    using h canonical_id_resolves_to_itself [OF h, of lib0] by simp
qed

lemma match_id_at_fullmatch: "match_id_at pre s = Some g \<Longrightarrow> DRIVE_ID_RE_fullmatch g"
  by (auto simp: match_id_at_def DRIVE_ID_RE_fullmatch_def Let_def list_all_iff
           split: if_splits dest: set_takeWhileD)

lemma search_id_fullmatch: "search_id pre s = Some g \<Longrightarrow> DRIVE_ID_RE_fullmatch g"
  by (induction s) (auto split: option.splits dest: match_id_at_fullmatch)

lemma first_match_fullmatch:
  "first_match [PATH_FOLDER_RE, PATH_FILE_D_RE, PATH_D_RE] p = Some g \<Longrightarrow> DRIVE_ID_RE_fullmatch g"
  by (auto simp: PATH_FOLDER_RE_def PATH_FILE_D_RE_def PATH_D_RE_def
           split: option.splits dest: search_id_fullmatch)

lemma resolve_result_shape:
  assumes "resolve_drive_id L v expected = Inr r"
  shows "DRIVE_ID_RE_fullmatch r"
proof (cases v)
  case None
  with assms show ?thesis by (simp add: resolve_drive_id_def)
next
  case (Some x)
  with assms show ?thesis
    by (auto simp: resolve_drive_id_def Let_def simp del: first_match.simps
             split: if_splits sum.splits option.splits list.splits
             dest: first_match_fullmatch)
qed

lemma root_not_id: "\<not> DRIVE_ID_RE_fullmatch ''root''"
  by (simp add: DRIVE_ID_RE_fullmatch_def)

text \<open>
  C10: a successful result of the resolver is the literal \<open>root\<close>, returned only for an
  absent folder input, or a string of the canonical-ID shape. So every result other than
  \<open>root\<close> resolves to itself again under the same kind, whereas \<open>root\<close> given back as
  an input fails with InvalidInput: it is neither a canonical ID nor a URL.
\<close>

theorem resolver_results_are_root_or_canonical:
  "(resolve_folder_id L v = Inr r \<longrightarrow>
      (v = None \<and> r = ''root'' \<or>
       v \<noteq> None \<and> r \<noteq> ''root'' \<and> DRIVE_ID_RE_fullmatch r \<and> resolve_folder_id L (Some r) = Inr r)) \<and>
   (resolve_file_id L v = Inr r \<longrightarrow>
      r \<noteq> ''root'' \<and> DRIVE_ID_RE_fullmatch r \<and> resolve_file_id L (Some r) = Inr r) \<and>
   resolve_folder_id L (Some ''root'') =
     Inl (ValidationError ''Expected a Google Drive folder ID or link.'') \<and>
   resolve_file_id L (Some ''root'') =
     Inl (ValidationError ''Expected a Google Drive file ID or link.'') \<and>
   failure_class (resolve_folder_id L (Some ''root'')) = Some InvalidInput \<and>
   failure_class (resolve_file_id L (Some ''root'')) = Some InvalidInput"
proof -
  have shape: "DRIVE_ID_RE_fullmatch r \<Longrightarrow> r \<noteq> ''root''" for r
    using root_not_id by auto
  have folder_case: "resolve_folder_id L v = Inr r \<longrightarrow>
      (v = None \<and> r = ''root'' \<or>
       v \<noteq> None \<and> r \<noteq> ''root'' \<and> DRIVE_ID_RE_fullmatch r \<and> resolve_folder_id L (Some r) = Inr r)"
  proof (cases v)
    case None
    then show ?thesis by (simp add: resolve_folder_id_def)
  next
    case (Some x)
    show ?thesis
    proof
      assume "resolve_folder_id L v = Inr r"
      with Some have "resolve_drive_id L (Some x) ''folder'' = Inr r"
        by (simp add: resolve_folder_id_def)
      then have "DRIVE_ID_RE_fullmatch r" by (rule resolve_result_shape)
      with Some show "v = None \<and> r = ''root'' \<or>
          v \<noteq> None \<and> r \<noteq> ''root'' \<and> DRIVE_ID_RE_fullmatch r \<and> resolve_folder_id L (Some r) = Inr r"
        by (simp add: shape resolve_folder_id_def resolve_id)
    qed
  qed
  have file_case: "resolve_file_id L v = Inr r \<longrightarrow>
      r \<noteq> ''root'' \<and> DRIVE_ID_RE_fullmatch r \<and> resolve_file_id L (Some r) = Inr r"
  proof
    assume "resolve_file_id L v = Inr r"
    then have "DRIVE_ID_RE_fullmatch r"
      unfolding resolve_file_id_def by (rule resolve_result_shape)
    then show "r \<noteq> ''root'' \<and> DRIVE_ID_RE_fullmatch r \<and> resolve_file_id L (Some r) = Inr r"
      by (simp add: shape resolve_file_id_def resolve_id)
  qed
  show ?thesis
    using folder_case file_case
    by (simp add: resolve_folder_id_def resolve_file_id_def root_fails failure_class_def)
qed

theorem resolver_results_are_root_or_canonical_witness:
  "resolve_folder_id lib0 None = Inr ''root'' \<and>
   resolve_folder_id lib0 (Some ''https://drive.google.com/open?id=1AbcdefGhIjKlmNop'') = Inr ''1AbcdefGhIjKlmNop'' \<and>
   DRIVE_ID_RE_fullmatch ''1AbcdefGhIjKlmNop'' \<and>
   resolve_folder_id lib0 (Some ''1AbcdefGhIjKlmNop'') = Inr ''1AbcdefGhIjKlmNop'' \<and>
   resolve_file_id lib0 (Some ''1AbcdefGhIjKlmNop'') = Inr ''1AbcdefGhIjKlmNop'' \<and>
   failure_class (resolve_folder_id lib0 (Some ''root'')) = Some InvalidInput"
proof -
  have a: "resolve_folder_id lib0 None = Inr ''root''"
    by (simp add: resolve_folder_id_def)
  have b: "resolve_folder_id lib0 (Some ''https://drive.google.com/open?id=1AbcdefGhIjKlmNop'') = Inr ''1AbcdefGhIjKlmNop''"
    by code_simp
  have c: "resolve_file_id lib0 (Some ''1AbcdefGhIjKlmNop'') = Inr ''1AbcdefGhIjKlmNop''"
    by code_simp
  show ?thesis
    using a b c
      resolver_results_are_root_or_canonical [of lib0 "Some ''https://drive.google.com/open?id=1AbcdefGhIjKlmNop''" "''1AbcdefGhIjKlmNop''"]
      resolver_results_are_root_or_canonical [of lib0 "Some ''1AbcdefGhIjKlmNop''" "''1AbcdefGhIjKlmNop''"]
    by simp
qed

text \<open>
  C7, as amended: an absent folder input resolves to \<open>root\<close>, and for both kinds an input
  that is present but empty, or empty after trimming, fails with InvalidInput saying that
  the value cannot be empty. (The file resolver takes a string; an absent input is outside
  its parameter type.)
\<close>

theorem absent_folder_is_root_and_empty_input_fails:
  "resolve_folder_id L None = Inr ''root'' \<and>
   (strip v = [] \<longrightarrow>
      resolve_folder_id L (Some v) = Inl (ValidationError ''Value cannot be empty.'') \<and>
      resolve_file_id L (Some v) = Inl (ValidationError ''Value cannot be empty.'') \<and>
      failure_class (resolve_folder_id L (Some v)) = Some InvalidInput \<and>
      failure_class (resolve_file_id L (Some v)) = Some InvalidInput)"
  by (simp add: resolve_folder_id_def resolve_file_id_def resolve_drive_id_def failure_class_def)

theorem absent_folder_is_root_and_empty_input_fails_witness:
  "strip [] = [] \<and> strip ''  '' = [] \<and>
   resolve_folder_id lib0 None = Inr ''root'' \<and>
   resolve_file_id lib0 (Some []) = Inl (ValidationError ''Value cannot be empty.'') \<and>
   resolve_folder_id lib0 (Some ''  '') = Inl (ValidationError ''Value cannot be empty.'') \<and>
   resolve_file_id lib0 (Some ''  '') = Inl (ValidationError ''Value cannot be empty.'')"
proof -
  have a: "strip [] = []" and b: "strip ''  '' = []"
    by (simp_all add: strip_def isspace_def code_def)
  show ?thesis
    using a b
      absent_folder_is_root_and_empty_input_fails [of lib0 "[]"]
      absent_folder_is_root_and_empty_input_fails [of lib0 "''  ''"]
    by simp
qed

text \<open>
  The claim as stated fails for the file kind: on an absent input the file resolver
  raises \<open>AttributeError\<close>, which the classifier does not catch, and not a validation
  error.
\<close>

theorem absent_file_input_counterexample:
  "resolve_file_id lib0 None =
     Inl (AttributeError (quoted ''NoneType'' @ '' object has no attribute '' @ quoted ''strip'')) \<and>
   failure_class (resolve_file_id lib0 None) = None \<and>
   resolve_file_id lib0 None \<noteq> Inl (ValidationError ''Value cannot be empty.'')"
  by (simp add: resolve_file_id_def resolve_drive_id_def failure_class_def quoted_def)

text \<open>
  What the scheme and host checks of the code give: for an input that is not of the
  canonical-ID shape, resolution fails with InvalidInput when the scheme of the parsed URL
  is neither \<open>http\<close> nor \<open>https\<close>, and when the network location of the URL (user
  information, host and port, in lower case) does not end with the domain of the service;
  a URL that the parser rejects fails with InvalidInput as well.
\<close>

theorem bad_scheme_or_host_fails:
  assumes "\<not> DRIVE_ID_RE_fullmatch (strip v)"
  shows "(urlparse L (strip v) = Inr p \<and> scheme p \<notin> {''http'', ''https''} \<and> strip v \<noteq> [] \<longrightarrow>
            resolve_folder_id L (Some v) =
              Inl (ValidationError ''Expected a Google Drive folder ID or link.'') \<and>
            resolve_file_id L (Some v) =
              Inl (ValidationError ''Expected a Google Drive file ID or link.'')) \<and>
         (urlparse L (strip v) = Inr p \<and> scheme p \<in> {''http'', ''https''} \<and>
          \<not> endswith (lower (netloc p)) ''google.com'' \<and> strip v \<noteq> [] \<longrightarrow>
            resolve_folder_id L (Some v) =
              Inl (ValidationError ''Expected a Google Drive folder link.'') \<and>
            resolve_file_id L (Some v) =
              Inl (ValidationError ''Expected a Google Drive file link.'')) \<and>
         ((\<exists>m. urlparse L (strip v) = Inl m) \<or>
          urlparse L (strip v) = Inr p \<and>
            (scheme p \<notin> {''http'', ''https''} \<or> \<not> endswith (lower (netloc p)) ''google.com'') \<longrightarrow>
            failure_class (resolve_folder_id L (Some v)) = Some InvalidInput \<and>
            failure_class (resolve_file_id L (Some v)) = Some InvalidInput)"
  using assms
  by (auto simp: resolve_folder_id_def resolve_file_id_def resolve_drive_id_def failure_class_def Let_def
           simp del: first_match.simps)

lemma ftp_parse:
  "urlparse lib0 ''ftp://drive.google.com/file/d/1AbcdefGhIjKlmNop'' =
     Inr \<lparr>scheme = ''ftp'', netloc = ''drive.google.com'', path = ''/file/d/1AbcdefGhIjKlmNop'',
          params = [], query = [], fragment = []\<rparr>"
  by code_simp

lemma example_parse:
  "urlparse lib0 ''https://example.com/file/d/1AbcdefGhIjKlmNop/view'' =
     Inr \<lparr>scheme = ''https'', netloc = ''example.com'', path = ''/file/d/1AbcdefGhIjKlmNop/view'',
          params = [], query = [], fragment = []\<rparr>"
  by code_simp

theorem bad_scheme_or_host_fails_witness:
  "\<not> DRIVE_ID_RE_fullmatch (strip ''ftp://drive.google.com/file/d/1AbcdefGhIjKlmNop'') \<and>
   resolve_file_id lib0 (Some ''ftp://drive.google.com/file/d/1AbcdefGhIjKlmNop'') =
     Inl (ValidationError ''Expected a Google Drive file ID or link.'') \<and>
   \<not> DRIVE_ID_RE_fullmatch (strip ''https://example.com/file/d/1AbcdefGhIjKlmNop/view'') \<and>
   \<not> endswith (lower ''example.com'') ''google.com'' \<and>
   resolve_file_id lib0 (Some ''https://example.com/file/d/1AbcdefGhIjKlmNop/view'') =
     Inl (ValidationError ''Expected a Google Drive file link.'') \<and>
   failure_class (resolve_folder_id lib0 (Some ''https://example.com/file/d/1AbcdefGhIjKlmNop/view'')) =
     Some InvalidInput"
proof -
  have s1: "strip ''ftp://drive.google.com/file/d/1AbcdefGhIjKlmNop'' = ''ftp://drive.google.com/file/d/1AbcdefGhIjKlmNop''"
    by code_simp
  have s2: "strip ''https://example.com/file/d/1AbcdefGhIjKlmNop/view'' = ''https://example.com/file/d/1AbcdefGhIjKlmNop/view''"
    by code_simp
  have n1: "\<not> DRIVE_ID_RE_fullmatch (strip ''ftp://drive.google.com/file/d/1AbcdefGhIjKlmNop'')"
    by code_simp
  have n2: "\<not> DRIVE_ID_RE_fullmatch (strip ''https://example.com/file/d/1AbcdefGhIjKlmNop/view'')"
    by code_simp
  have h: "\<not> endswith (lower ''example.com'') ''google.com''"
    by code_simp
  show ?thesis
    using n1 n2 h
      bad_scheme_or_host_fails [OF n1, of lib0
        "\<lparr>scheme = ''ftp'', netloc = ''drive.google.com'', path = ''/file/d/1AbcdefGhIjKlmNop'',
          params = [], query = [], fragment = []\<rparr>"]
      bad_scheme_or_host_fails [OF n2, of lib0
        "\<lparr>scheme = ''https'', netloc = ''example.com'', path = ''/file/d/1AbcdefGhIjKlmNop/view'',
          params = [], query = [], fragment = []\<rparr>"]
    by (simp add: s1 s2 ftp_parse example_parse failure_class_def)
qed

text \<open>
  C5: a URL whose host is outside the domain family of the service does resolve when its
  port text ends with the domain. The code tests the whole network location, which ends
  with the port, where it means the host: for the link below the host is
  \<open>evil.example\<close>, the variable \<open>host\<close> of the code holds \<open>evil.example:google.com\<close>,
  and both kinds return the ID instead of failing with InvalidInput.
\<close>

theorem host_outside_family_resolves_through_port:
  "urlparse lib0 ''https://evil.example:google.com/d/1AbcdefGhIjKlmNop'' =
     Inr \<lparr>scheme = ''https'', netloc = ''evil.example:google.com'', path = ''/d/1AbcdefGhIjKlmNop'',
          params = [], query = [], fragment = []\<rparr> \<and>
   hostname \<lparr>scheme = ''https'', netloc = ''evil.example:google.com'', path = ''/d/1AbcdefGhIjKlmNop'',
          params = [], query = [], fragment = []\<rparr> = Some ''evil.example'' \<and>
   endswith ''evil.example'' ''google.com'' = False \<and>
   endswith (lower ''evil.example:google.com'') ''google.com'' = True \<and>
   DRIVE_ID_RE_fullmatch ''https://evil.example:google.com/d/1AbcdefGhIjKlmNop'' = False \<and>
   resolve_folder_id lib0 (Some ''https://evil.example:google.com/d/1AbcdefGhIjKlmNop'') =
     Inr ''1AbcdefGhIjKlmNop'' \<and>
   resolve_file_id lib0 (Some ''https://evil.example:google.com/d/1AbcdefGhIjKlmNop'') =
     Inr ''1AbcdefGhIjKlmNop'' \<and>
   resolve_folder_id lib0 (Some ''https://evil.example:google.com/drive/folders/1AbcdefGhIjKlmNop'') =
     Inr ''1AbcdefGhIjKlmNop'' \<and>
   resolve_file_id lib0 (Some ''https://evil.example:google.com/file/d/1AbcdefGhIjKlmNop/view'') =
     Inr ''1AbcdefGhIjKlmNop''"
  by code_simp

lemma startswith_Nil [simp]: "startswith s [] = True"
  by (simp add: startswith_def)

lemma startswith_Nil_Cons [simp]: "startswith [] (d # t) = False"
  by (simp add: startswith_def)

lemma startswith_Cons_Cons [simp]: "startswith (c # s) (d # t) = (c = d \<and> startswith s t)"
  by (auto simp: startswith_def)

lemma startswith_append_same: "startswith (t @ s) t"
  by (simp add: startswith_def)

lemma startswith_nth:
  assumes "startswith s t" and "k < length t"
  shows "k < length s \<and> s ! k = t ! k"
proof -
  from assms(1) have eq: "take (length t) s = t"
    by (simp add: startswith_def)
  then have "length t \<le> length s"
    by (metis length_take min.cobounded1)
  with assms(2) have "k < length s" by simp
  moreover have "s ! k = t ! k"
    using eq assms(2) by (metis nth_take)
  ultimately show ?thesis by simp
qed

lemma id_blocks:
  assumes "list_all is_id_char i" and "k < length i" and "k < length t" and "\<not> is_id_char (t ! k)"
  shows "\<not> startswith (i @ rest) t"
proof
  assume "startswith (i @ rest) t"
  with assms(3) have "(i @ rest) ! k = t ! k"
    using startswith_nth by blast
  with assms(2) have "i ! k = t ! k"
    by (simp add: nth_append)
  moreover from assms(1,2) have "is_id_char (i ! k)"
    by (simp add: list_all_length)
  ultimately show False
    using assms(4) by simp
qed

lemma contains_skip:
  assumes "\<forall>c\<in>set g. c \<noteq> x"
  shows "contains (x # t) (g @ rest) = contains (x # t) rest"
  using assms by (induction g) auto

lemma contains_skip_all:
  assumes "\<forall>c\<in>set g. c \<noteq> x"
  shows "contains (x # t) g = False"
  using contains_skip [OF assms, of t "[]"] by simp

lemma contains_iff: "contains sub s \<longleftrightarrow> (\<exists>u w. s = u @ sub @ w)"
proof (induction s)
  case Nil
  then show ?case by auto
next
  case (Cons c cs)
  have "startswith (c # cs) sub \<longleftrightarrow> (\<exists>w. c # cs = sub @ w)"
    by (metis append_eq_conv_conj startswith_def)
  moreover have "(\<exists>u w. c # cs = u @ sub @ w) \<longleftrightarrow>
      (\<exists>w. c # cs = sub @ w) \<or> (\<exists>u w. cs = u @ sub @ w)"
  proof
    assume "\<exists>u w. c # cs = u @ sub @ w"
    then obtain u w where uw: "c # cs = u @ sub @ w" by blast
    show "(\<exists>w. c # cs = sub @ w) \<or> (\<exists>u w. cs = u @ sub @ w)"
    proof (cases u)
      case Nil
      with uw show ?thesis by auto
    next
      case (Cons a u')
      with uw have "cs = u' @ sub @ w" by simp
      then show ?thesis by blast
    qed
  next
    assume "(\<exists>w. c # cs = sub @ w) \<or> (\<exists>u w. cs = u @ sub @ w)"
    then show "\<exists>u w. c # cs = u @ sub @ w"
    proof
      assume "\<exists>w. c # cs = sub @ w"
      then obtain w where "c # cs = [] @ sub @ w" by auto
      then show ?thesis by blast
    next
      assume "\<exists>u w. cs = u @ sub @ w"
      then obtain u w where "c # cs = (c # u) @ sub @ w" by auto
      then show ?thesis by blast
    qed
  qed
  ultimately show ?case
    using Cons.IH by simp
qed

lemma search_id_None: "\<not> contains pre s \<Longrightarrow> search_id pre s = None"
  by (induction s) (auto simp: match_id_at_def)

lemma match_id_at_here:
  assumes "DRIVE_ID_RE_fullmatch i" and "rest = [] \<or> \<not> is_id_char (hd rest)"
  shows "match_id_at pre (pre @ i @ rest) = Some i"
proof -
  from assms(1) have all: "\<forall>c\<in>set i. is_id_char c" and len: "10 \<le> length i"
    by (auto simp: DRIVE_ID_RE_fullmatch_def list_all_iff)
  have "takeWhile is_id_char rest = []"
    using assms(2) by (cases rest) auto
  with all have "takeWhile is_id_char (i @ rest) = i"
    by (simp add: takeWhile_append2)
  with len show ?thesis
    by (simp add: match_id_at_def startswith_append_same)
qed

lemma search_id_here:
  assumes "DRIVE_ID_RE_fullmatch i" and "rest = [] \<or> \<not> is_id_char (hd rest)" and "pre \<noteq> []"
  shows "search_id pre (pre @ i @ rest) = Some i"
proof -
  from assms(3) obtain x xs where pre: "pre = x # xs"
    by (cases pre) auto
  have "search_id pre (x # (xs @ i @ rest)) = Some i"
    using match_id_at_here [OF assms(1,2), of pre] by (simp add: pre)
  then show ?thesis
    by (simp add: pre)
qed

lemma id_char_facts:
  assumes "is_id_char c"
  shows "c \<noteq> CHR ''/''" and "c \<noteq> CHR '':''" and "c \<noteq> CHR ''?''" and "c \<noteq> CHR ''#''"
    and "c \<noteq> CHR '';''" and "c \<noteq> CHR ''[''" and "c \<noteq> CHR '']''" and "c \<noteq> CHR ''.''"
    and "\<not> C0_CONTROL_OR_SPACE c" and "c \<notin> set UNSAFE_URL_BYTES_TO_REMOVE" and "\<not> isspace c"
  using assms
  by (auto simp: is_id_char_def isascii_alpha_def isdigit_def code_def Let_def
        C0_CONTROL_OR_SPACE_def UNSAFE_URL_BYTES_TO_REMOVE_def isspace_def)

lemma not_id_slash: "\<not> is_id_char (CHR ''/'')"
  by (simp add: is_id_char_def isascii_alpha_def isdigit_def code_def)

lemma host_char_facts:
  assumes "host_char c"
  shows "c \<noteq> CHR ''/''" and "c \<noteq> CHR '':''" and "c \<noteq> CHR ''?''" and "c \<noteq> CHR ''#''"
    and "c \<noteq> CHR '';''" and "c \<noteq> CHR ''[''" and "c \<noteq> CHR '']''"
    and "\<not> C0_CONTROL_OR_SPACE c" and "c \<notin> set UNSAFE_URL_BYTES_TO_REMOVE" and "\<not> netloc_delim c"
  using assms
  by (auto simp: host_char_def is_id_char_def isascii_alpha_def isdigit_def code_def Let_def
        C0_CONTROL_OR_SPACE_def UNSAFE_URL_BYTES_TO_REMOVE_def netloc_delim_def)

lemma path_char_facts:
  assumes "path_char c"
  shows "c \<noteq> CHR '':''" and "c \<noteq> CHR ''?''" and "c \<noteq> CHR ''#''"
    and "c \<noteq> CHR '';''" and "c \<notin> set UNSAFE_URL_BYTES_TO_REMOVE"
  using assms
  by (auto simp: path_char_def is_id_char_def isascii_alpha_def isdigit_def code_def Let_def
        UNSAFE_URL_BYTES_TO_REMOVE_def)

lemma scheme_facts:
  assumes "sch \<in> {''http'', ''https''}"
  shows "split_scheme (sch @ '':'' @ rest) = (sch, rest)"
  using assms
  by (auto simp: split_scheme_def isascii_alpha_def scheme_chars_def code_def lower_def lower_char_def)

lemma netloc_facts:
  assumes "list_all host_char host"
  shows "split_netloc_checked L (''//'' @ host @ ''/'' @ rest) = Inr (host, ''/'' @ rest)"
proof -
  have h: "\<not> netloc_delim c" if "c \<in> set host" for c
    using that assms host_char_facts(10) [of c] by (simp add: list_all_iff)
  have lb: "CHR ''['' \<notin> set host"
    using assms host_char_facts(6) [of "CHR ''[''"] by (auto simp: list_all_iff)
  have rb: "CHR '']'' \<notin> set host"
    using assms host_char_facts(7) [of "CHR '']''"] by (auto simp: list_all_iff)
  have d: "netloc_delim (CHR ''/'')"
    by (simp add: netloc_delim_def)
  have t: "takeWhile (\<lambda>c. \<not> netloc_delim c) (host @ CHR ''/'' # rest) = host"
    using h d by (simp add: takeWhile_append2)
  have dr: "dropWhile (\<lambda>c. \<not> netloc_delim c) (host @ CHR ''/'' # rest) = CHR ''/'' # rest"
    using h d by (simp add: dropWhile_append2)
  have "splitnetloc (''//'' @ host @ ''/'' @ rest) = (host, ''/'' @ rest)"
    by (simp add: splitnetloc_def t dr)
  with lb rb show ?thesis
    by (simp add: split_netloc_checked_def)
qed

lemma urlparse_plain:
  assumes sch: "sch \<in> {''http'', ''https''}"
    and host: "list_all host_char host"
    and pth: "list_all path_char pth"
  shows "urlparse L (sch @ ''://'' @ host @ ''/'' @ pth) =
           Inr \<lparr>scheme = sch, netloc = host, path = ''/'' @ pth, params = [], query = [], fragment = []\<rparr>"
proof -
  let ?u = "sch @ ''://'' @ host @ ''/'' @ pth"
  let ?safe = "\<lambda>c. c \<notin> set UNSAFE_URL_BYTES_TO_REMOVE"
  have p1: "CHR ''?'' \<notin> set pth" and p2: "CHR ''#'' \<notin> set pth" and p3: "CHR '';'' \<notin> set pth"
    using pth path_char_facts(2) [of "CHR ''?''"] path_char_facts(3) [of "CHR ''#''"]
      path_char_facts(4) [of "CHR '';''"]
    by (auto simp: list_all_iff)
  have p4: "filter ?safe pth = pth"
    using pth path_char_facts(5) by (simp add: filter_id_conv list_all_iff)
  have h4: "filter ?safe host = host"
    using host host_char_facts(9) by (simp add: filter_id_conv list_all_iff)
  have s4: "filter ?safe (sch @ ''://'') = sch @ ''://''"
    using sch by (auto simp: UNSAFE_URL_BYTES_TO_REMOVE_def)
  have s0: "dropWhile C0_CONTROL_OR_SPACE (sch @ rest) = sch @ rest" for rest
    using sch by (auto simp: C0_CONTROL_OR_SPACE_def code_def)
  have "filter ?safe ?u = filter ?safe (sch @ ''://'') @ filter ?safe host @ filter ?safe ''/'' @ filter ?safe pth"
    by simp
  also have "\<dots> = ?u"
    unfolding p4 h4 s4 by (simp add: UNSAFE_URL_BYTES_TO_REMOVE_def)
  finally have 2: "filter ?safe ?u = ?u" .
  define r where "r = ''//'' @ host @ ''/'' @ pth"
  define q where "q = ''/'' @ pth"
  define u where "u = ?u"
  have 3: "split_scheme u = (sch, r)"
    using scheme_facts [OF sch, of r] by (simp add: u_def r_def)
  have 4: "split_netloc_checked L r = Inr (host, q)"
    unfolding r_def q_def using host by (rule netloc_facts)
  have q1: "CHR ''?'' \<notin> set q" and q2: "CHR ''#'' \<notin> set q" and q3: "CHR '';'' \<notin> set q"
    using p1 p2 p3 by (simp_all add: q_def)
  have 1: "dropWhile C0_CONTROL_OR_SPACE u = u"
    unfolding u_def by (rule s0)
  have 2: "filter ?safe u = u"
    unfolding u_def by (rule 2)
  have 5: "urlsplit L u = Inr (sch, host, q, [], [])"
    by (simp add: urlsplit_def 1 2 3 4 q1 q2)
  have "urlparse L u = Inr \<lparr>scheme = sch, netloc = host, path = q, params = [], query = [], fragment = []\<rparr>"
    by (simp add: urlparse_def 5 q3)
  then show ?thesis
    by (simp add: u_def q_def)
qed

lemma resolve_drive_id_url:
  assumes "strip v \<noteq> []" and "\<not> DRIVE_ID_RE_fullmatch (strip v)"
    and "urlparse L (strip v) = Inr p" and "scheme p \<in> {''http'', ''https''}"
    and "endswith (lower (netloc p)) ''google.com''"
  shows "resolve_drive_id L (Some v) expected =
    (if expected = ''folder'' \<and> contains ''/file/'' (path p)
     then Inl (ValidationError ''Expected folder link/ID, but file link was provided.'')
     else if expected = ''file'' \<and> contains ''/folders/'' (path p)
     then Inl (ValidationError ''Expected file link/ID, but folder link was provided.'')
     else (case PATH_FOLDER_RE (path p) of
             Some g \<Rightarrow> Inr g
           | None \<Rightarrow>
               (case PATH_FILE_D_RE (path p) of
                  Some g \<Rightarrow> Inr g
                | None \<Rightarrow>
                    (case PATH_D_RE (path p) of
                       Some g \<Rightarrow> Inr g
                     | None \<Rightarrow>
                         (case parse_qs L (query p) ''id'' of
                            Some (q0 # qr) \<Rightarrow>
                              if DRIVE_ID_RE_fullmatch q0 then Inr q0
                              else Inl (ValidationError (''Could not extract '' @ expected @ '' ID from value: '' @ v))
                          | _ \<Rightarrow> Inl (ValidationError (''Could not extract '' @ expected @ '' ID from value: '' @ v)))))))"
  using assms
  by (auto simp: resolve_drive_id_def Let_def split: option.splits list.splits)

lemma id_blocks_whole:
  assumes "list_all is_id_char i" and "k < length i" and "k < length t" and "\<not> is_id_char (t ! k)"
  shows "\<not> startswith i t"
  using id_blocks [OF assms, of "[]"] by simp

lemma folder_path_facts:
  assumes i: "DRIVE_ID_RE_fullmatch i"
  shows "\<not> contains ''/file/'' (''/drive/folders/'' @ i)"
    and "contains ''/folders/'' (''/drive/folders/'' @ i)"
    and "PATH_FOLDER_RE (''/drive/folders/'' @ i) = Some i"
proof -
  from i have all: "list_all is_id_char i" and len: "10 \<le> length i"
    by (simp_all add: DRIVE_ID_RE_fullmatch_def)
  have ns: "\<forall>c\<in>set i. c \<noteq> CHR ''/''"
    using all id_char_facts(1) by (auto simp: list_all_iff)
  have b: "\<not> startswith i ''file/''"
    using all len not_id_slash by (intro id_blocks_whole [where k = 4]) simp_all
  have c: "\<not> contains ''/file/'' i"
    using contains_skip_all [OF ns] by simp
  show "\<not> contains ''/file/'' (''/drive/folders/'' @ i)"
    using b c by simp
  show "contains ''/folders/'' (''/drive/folders/'' @ i)"
    by simp
  show "PATH_FOLDER_RE (''/drive/folders/'' @ i) = Some i"
    unfolding PATH_FOLDER_RE_def
    using search_id_here [OF i, of "[]" "''/drive/folders/''"] by simp
qed

lemma file_path_facts:
  assumes i: "DRIVE_ID_RE_fullmatch i"
  shows "contains ''/file/'' (''/file/d/'' @ i @ ''/view'')"
    and "\<not> contains ''/folders/'' (''/file/d/'' @ i @ ''/view'')"
    and "PATH_FOLDER_RE (''/file/d/'' @ i @ ''/view'') = None"
    and "PATH_FILE_D_RE (''/file/d/'' @ i @ ''/view'') = Some i"
proof -
  from i have all: "list_all is_id_char i" and len: "10 \<le> length i"
    by (simp_all add: DRIVE_ID_RE_fullmatch_def)
  have ns: "\<forall>c\<in>set i. c \<noteq> CHR ''/''"
    using all id_char_facts(1) by (auto simp: list_all_iff)
  have b1: "\<not> startswith (i @ ''/view'') ''folders/''"
    using all len not_id_slash by (intro id_blocks [where k = 7]) simp_all
  have b2: "\<not> startswith (i @ ''/view'') ''drive/folders/''"
    using all len not_id_slash by (intro id_blocks [where k = 5]) simp_all
  have c1: "contains ''/folders/'' (i @ ''/view'') = contains ''/folders/'' ''/view''"
    using contains_skip [OF ns] by simp
  have c2: "contains ''/drive/folders/'' (i @ ''/view'') = contains ''/drive/folders/'' ''/view''"
    using contains_skip [OF ns] by simp
  show "contains ''/file/'' (''/file/d/'' @ i @ ''/view'')"
    by simp
  show "\<not> contains ''/folders/'' (''/file/d/'' @ i @ ''/view'')"
    using b1 by (simp add: c1)
  have "\<not> contains ''/drive/folders/'' (''/file/d/'' @ i @ ''/view'')"
    using b2 by (simp add: c2)
  then show "PATH_FOLDER_RE (''/file/d/'' @ i @ ''/view'') = None"
    unfolding PATH_FOLDER_RE_def by (rule search_id_None)
  show "PATH_FILE_D_RE (''/file/d/'' @ i @ ''/view'') = Some i"
    unfolding PATH_FILE_D_RE_def
    using search_id_here [OF i, of "''/view''" "''/file/d/''"] not_id_slash by simp
qed

lemma url_shape:
  assumes sch: "sch \<in> {''http'', ''https''}" and "rest \<noteq> []" and "\<not> isspace (last rest)"
  shows "strip (sch @ ''://'' @ rest) = sch @ ''://'' @ rest"
    and "\<not> DRIVE_ID_RE_fullmatch (sch @ ''://'' @ rest)"
    and "sch @ ''://'' @ rest \<noteq> []"
proof -
  have "\<not> isspace (hd (sch @ ''://'' @ rest))"
    using sch by (auto simp: isspace_def code_def)
  moreover have "\<not> isspace (last (sch @ ''://'' @ rest))"
    using assms(2,3) by simp
  ultimately show "strip (sch @ ''://'' @ rest) = sch @ ''://'' @ rest"
    by (intro strip_same) simp_all
  have "\<not> is_id_char (CHR '':'')"
    by (simp add: is_id_char_def isascii_alpha_def isdigit_def code_def)
  then show "\<not> DRIVE_ID_RE_fullmatch (sch @ ''://'' @ rest)"
    by (simp add: DRIVE_ID_RE_fullmatch_def)
  show "sch @ ''://'' @ rest \<noteq> []"
    by simp
qed

lemma folder_url_parse:
  assumes i: "DRIVE_ID_RE_fullmatch i" and sch: "sch \<in> {''http'', ''https''}" and host: "google_host host"
  shows "strip (folder_url sch host i) = folder_url sch host i"
    and "\<not> DRIVE_ID_RE_fullmatch (folder_url sch host i)"
    and "folder_url sch host i \<noteq> []"
    and "urlparse L (folder_url sch host i) =
           Inr \<lparr>scheme = sch, netloc = host, path = ''/drive/folders/'' @ i, params = [], query = [], fragment = []\<rparr>"
proof -
  from i have all: "list_all is_id_char i" and ne: "i \<noteq> []"
    by (auto simp: DRIVE_ID_RE_fullmatch_def)
  then have l: "\<not> isspace (last i)"
    by (simp add: id_char_not_space list_all_iff)
  have u: "folder_url sch host i = sch @ ''://'' @ (host @ ''/drive/folders/'' @ i)"
    by (simp add: folder_url_def)
  show "strip (folder_url sch host i) = folder_url sch host i"
    unfolding u using sch ne l by (intro url_shape(1)) simp_all
  show "\<not> DRIVE_ID_RE_fullmatch (folder_url sch host i)"
    unfolding u using sch ne l by (intro url_shape(2)) simp_all
  show "folder_url sch host i \<noteq> []"
    by (simp add: folder_url_def)
  have "list_all path_char i"
    using all by (simp add: path_char_def list_all_iff)
  moreover have "list_all path_char ''drive/folders/''"
    by (simp add: path_char_def is_id_char_def isascii_alpha_def isdigit_def code_def)
  ultimately have p: "list_all path_char (''drive/folders/'' @ i)"
    by simp
  have "urlparse L (sch @ ''://'' @ host @ ''/'' @ (''drive/folders/'' @ i)) =
          Inr \<lparr>scheme = sch, netloc = host, path = ''/'' @ (''drive/folders/'' @ i), params = [], query = [], fragment = []\<rparr>"
    using sch host p by (intro urlparse_plain) (simp_all add: google_host_def)
  then show "urlparse L (folder_url sch host i) =
           Inr \<lparr>scheme = sch, netloc = host, path = ''/drive/folders/'' @ i, params = [], query = [], fragment = []\<rparr>"
    by (simp add: folder_url_def)
qed

lemma file_url_parse:
  assumes i: "DRIVE_ID_RE_fullmatch i" and sch: "sch \<in> {''http'', ''https''}" and host: "google_host host"
  shows "strip (file_url sch host i) = file_url sch host i"
    and "\<not> DRIVE_ID_RE_fullmatch (file_url sch host i)"
    and "file_url sch host i \<noteq> []"
    and "urlparse L (file_url sch host i) =
           Inr \<lparr>scheme = sch, netloc = host, path = ''/file/d/'' @ i @ ''/view'', params = [], query = [], fragment = []\<rparr>"
proof -
  from i have all: "list_all is_id_char i"
    by (auto simp: DRIVE_ID_RE_fullmatch_def)
  have l: "\<not> isspace (last (host @ ''/file/d/'' @ i @ ''/view''))"
    by (simp add: isspace_def code_def)
  have u: "file_url sch host i = sch @ ''://'' @ (host @ ''/file/d/'' @ i @ ''/view'')"
    by (simp add: file_url_def)
  show "strip (file_url sch host i) = file_url sch host i"
    unfolding u using sch l by (intro url_shape(1)) simp_all
  show "\<not> DRIVE_ID_RE_fullmatch (file_url sch host i)"
    unfolding u using sch l by (intro url_shape(2)) simp_all
  show "file_url sch host i \<noteq> []"
    by (simp add: file_url_def)
  have "list_all path_char i"
    using all by (simp add: path_char_def list_all_iff)
  moreover have "list_all path_char ''file/d/''" and "list_all path_char ''/view''"
    by (simp_all add: path_char_def is_id_char_def isascii_alpha_def isdigit_def code_def)
  ultimately have p: "list_all path_char (''file/d/'' @ i @ ''/view'')"
    by simp
  have "urlparse L (sch @ ''://'' @ host @ ''/'' @ (''file/d/'' @ i @ ''/view'')) =
          Inr \<lparr>scheme = sch, netloc = host, path = ''/'' @ (''file/d/'' @ i @ ''/view''), params = [], query = [], fragment = []\<rparr>"
    using sch host p by (intro urlparse_plain) (simp_all add: google_host_def)
  then show "urlparse L (file_url sch host i) =
           Inr \<lparr>scheme = sch, netloc = host, path = ''/file/d/'' @ i @ ''/view'', params = [], query = [], fragment = []\<rparr>"
    by (simp add: file_url_def)
qed

text \<open>
  C3: for a canonical ID inside a folder link (\<open>/drive/folders/ID\<close>) and a file link
  (\<open>/file/d/ID/view\<close>) of a host of the service, the folder link resolved as a folder
  and the file link resolved as a file both give that ID, and each link resolved as the
  other kind fails with InvalidInput and a message that names the mismatch.
\<close>

theorem folder_and_file_links_resolve_by_kind:
  assumes i: "DRIVE_ID_RE_fullmatch i" and sch: "sch \<in> {''http'', ''https''}" and host: "google_host host"
  shows "resolve_folder_id L (Some (folder_url sch host i)) = Inr i \<and>
         resolve_file_id L (Some (file_url sch host i)) = Inr i \<and>
         resolve_file_id L (Some (folder_url sch host i)) =
           Inl (ValidationError ''Expected file link/ID, but folder link was provided.'') \<and>
         resolve_folder_id L (Some (file_url sch host i)) =
           Inl (ValidationError ''Expected folder link/ID, but file link was provided.'')"
proof -
  note fo = folder_url_parse [OF i sch host]
  note fi = file_url_parse [OF i sch host]
  note pfo = folder_path_facts [OF i]
  note pfi = file_path_facts [OF i]
  have h: "endswith (lower host) ''google.com''"
    using host by (simp add: google_host_def)
  let ?fo = "\<lparr>scheme = sch, netloc = host, path = ''/drive/folders/'' @ i, params = [], query = [], fragment = []\<rparr>"
  let ?fi = "\<lparr>scheme = sch, netloc = host, path = ''/file/d/'' @ i @ ''/view'', params = [], query = [], fragment = []\<rparr>"
  have fo1: "strip (folder_url sch host i) \<noteq> []"
    and fo2: "\<not> DRIVE_ID_RE_fullmatch (strip (folder_url sch host i))"
    and fo3: "urlparse L (strip (folder_url sch host i)) = Inr ?fo"
    using fo by simp_all
  have fi1: "strip (file_url sch host i) \<noteq> []"
    and fi2: "\<not> DRIVE_ID_RE_fullmatch (strip (file_url sch host i))"
    and fi3: "urlparse L (strip (file_url sch host i)) = Inr ?fi"
    using fi by simp_all
  have s: "scheme ?fo \<in> {''http'', ''https''}" "scheme ?fi \<in> {''http'', ''https''}"
    using sch by simp_all
  have g: "endswith (lower (netloc ?fo)) ''google.com''" "endswith (lower (netloc ?fi)) ''google.com''"
    using h by simp_all
  have fo': "resolve_drive_id L (Some (folder_url sch host i)) expected =
      (if expected = ''folder'' \<and> contains ''/file/'' (''/drive/folders/'' @ i)
       then Inl (ValidationError ''Expected folder link/ID, but file link was provided.'')
       else if expected = ''file'' \<and> contains ''/folders/'' (''/drive/folders/'' @ i)
       then Inl (ValidationError ''Expected file link/ID, but folder link was provided.'')
       else Inr i)" for expected
    using resolve_drive_id_url [OF fo1 fo2 fo3 s(1) g(1), of expected] pfo(3)
    by simp
  have fi': "resolve_drive_id L (Some (file_url sch host i)) expected =
      (if expected = ''folder'' \<and> contains ''/file/'' (''/file/d/'' @ i @ ''/view'')
       then Inl (ValidationError ''Expected folder link/ID, but file link was provided.'')
       else if expected = ''file'' \<and> contains ''/folders/'' (''/file/d/'' @ i @ ''/view'')
       then Inl (ValidationError ''Expected file link/ID, but folder link was provided.'')
       else Inr i)" for expected
    using resolve_drive_id_url [OF fi1 fi2 fi3 s(2) g(2), of expected] pfi(3,4)
    by simp
  show ?thesis
    using pfo(1,2) pfi(1,2)
    by (simp add: resolve_folder_id_def resolve_file_id_def fo' fi')
qed

theorem folder_and_file_links_resolve_by_kind_witness:
  "DRIVE_ID_RE_fullmatch ''1AbcdefGhIjKlmNop'' \<and> google_host ''drive.google.com'' \<and>
   resolve_folder_id lib0 (Some ''https://drive.google.com/drive/folders/1AbcdefGhIjKlmNop'') =
     Inr ''1AbcdefGhIjKlmNop'' \<and>
   resolve_file_id lib0 (Some ''https://drive.google.com/file/d/1AbcdefGhIjKlmNop/view'') =
     Inr ''1AbcdefGhIjKlmNop'' \<and>
   resolve_file_id lib0 (Some ''https://drive.google.com/drive/folders/1AbcdefGhIjKlmNop'') =
     Inl (ValidationError ''Expected file link/ID, but folder link was provided.'') \<and>
   resolve_folder_id lib0 (Some ''https://drive.google.com/file/d/1AbcdefGhIjKlmNop/view'') =
     Inl (ValidationError ''Expected folder link/ID, but file link was provided.'')"
proof -
  have a: "DRIVE_ID_RE_fullmatch ''1AbcdefGhIjKlmNop''"
    by code_simp
  have b: "''https'' \<in> {''http'', ''https''}"
    by simp
  have c: "google_host ''drive.google.com''"
    by code_simp
  show ?thesis
    using a c folder_and_file_links_resolve_by_kind [OF a b c, of lib0]
    by (simp add: folder_url_def file_url_def)
qed

lemma match_id_at_sound:
  assumes "match_id_at pre s = Some g"
  shows "\<exists>w. s = pre @ g @ w \<and> DRIVE_ID_RE_fullmatch g \<and> (w = [] \<or> \<not> is_id_char (hd w))"
proof -
  let ?rest = "drop (length pre) s"
  let ?w = "dropWhile is_id_char ?rest"
  from assms have sw: "take (length pre) s = pre" and g: "g = takeWhile is_id_char ?rest"
    by (auto simp: match_id_at_def Let_def startswith_def split: if_splits)
  have "s = take (length pre) s @ ?rest"
    by simp
  then have "s = pre @ ?rest"
    using sw by simp
  moreover have "?rest = g @ ?w"
    by (simp add: g)
  ultimately have 1: "s = pre @ g @ ?w"
    by simp
  have 2: "?w = [] \<or> \<not> is_id_char (hd ?w)"
    using hd_dropWhile [of is_id_char ?rest] by blast
  have 3: "DRIVE_ID_RE_fullmatch g"
    using assms by (rule match_id_at_fullmatch)
  from 1 2 3 show ?thesis
    by (intro exI [of _ ?w]) simp
qed

lemma search_id_sound:
  assumes "search_id pre s = Some g"
  shows "\<exists>u w. s = u @ pre @ g @ w \<and> DRIVE_ID_RE_fullmatch g \<and> (w = [] \<or> \<not> is_id_char (hd w))"
  using assms
proof (induction s)
  case Nil
  then show ?case by simp
next
  case (Cons c cs)
  show ?case
  proof (cases "match_id_at pre (c # cs)")
    case (Some g')
    with Cons.prems have "g' = g" by simp
    with Some have "match_id_at pre (c # cs) = Some g" by simp
    then obtain w where "c # cs = pre @ g @ w"
      and r: "DRIVE_ID_RE_fullmatch g" "w = [] \<or> \<not> is_id_char (hd w)"
      using match_id_at_sound by blast
    then have "c # cs = [] @ pre @ g @ w" by simp
    with r show ?thesis by blast
  next
    case None
    with Cons.prems have "search_id pre cs = Some g" by simp
    then obtain u w where "cs = u @ pre @ g @ w"
      and r: "DRIVE_ID_RE_fullmatch g" "w = [] \<or> \<not> is_id_char (hd w)"
      using Cons.IH by blast
    then have "c # cs = (c # u) @ pre @ g @ w" by simp
    with r show ?thesis by blast
  qed
qed

lemma search_id_complete:
  assumes "DRIVE_ID_RE_fullmatch g"
  shows "search_id pre (u @ pre @ g @ w) \<noteq> None"
proof (induction u)
  case Nil
  from assms have all: "\<forall>c\<in>set g. is_id_char c" and len: "10 \<le> length g"
    by (auto simp: DRIVE_ID_RE_fullmatch_def list_all_iff)
  from all have "takeWhile is_id_char (g @ w) = g @ takeWhile is_id_char w"
    by (simp add: takeWhile_append2)
  with len have m: "match_id_at pre (pre @ g @ w) \<noteq> None"
    by (simp add: match_id_at_def startswith_append_same)
  from len have "pre @ g @ w \<noteq> []" by auto
  then obtain c cs where "pre @ g @ w = c # cs"
    by (cases "pre @ g @ w") auto
  with m show ?case
    by (auto split: option.splits)
next
  case (Cons c u)
  then show ?case
    by (auto split: option.splits)
qed

lemma contains_append_right: "contains v (m @ v)"
proof -
  have "m @ v = m @ v @ []" by simp
  then show ?thesis
    unfolding contains_iff by blast
qed

lemma parse_qs_nonempty: "parse_qs L qs k \<noteq> Some []"
  by (simp add: parse_qs_def Let_def)

text \<open>
  C2: for a URL input that passes the scheme, host and cross-kind checks, the path
  patterns are tried in the order folder, file detail, generic \<open>/d/\<close>, and the first
  match is returned; when no pattern matches, the first value of the query parameter
  \<open>id\<close> is returned if it is of the canonical-ID shape; and when nothing matches the
  resolution fails with InvalidInput and a message that holds the input value. Every ID
  returned is of the canonical-ID shape.
\<close>

theorem path_patterns_then_query_id_then_failure:
  assumes "strip v \<noteq> []" and "\<not> DRIVE_ID_RE_fullmatch (strip v)"
    and "urlparse L (strip v) = Inr p" and "scheme p \<in> {''http'', ''https''}"
    and "endswith (lower (netloc p)) ''google.com''"
    and "\<not> (expected = ''folder'' \<and> contains ''/file/'' (path p))"
    and "\<not> (expected = ''file'' \<and> contains ''/folders/'' (path p))"
  shows "(PATH_FOLDER_RE (path p) = Some g \<longrightarrow> resolve_drive_id L (Some v) expected = Inr g) \<and>
         (PATH_FOLDER_RE (path p) = None \<and> PATH_FILE_D_RE (path p) = Some g \<longrightarrow>
            resolve_drive_id L (Some v) expected = Inr g) \<and>
         (PATH_FOLDER_RE (path p) = None \<and> PATH_FILE_D_RE (path p) = None \<and> PATH_D_RE (path p) = Some g \<longrightarrow>
            resolve_drive_id L (Some v) expected = Inr g) \<and>
         (PATH_FOLDER_RE (path p) = None \<and> PATH_FILE_D_RE (path p) = None \<and> PATH_D_RE (path p) = None \<and>
          parse_qs L (query p) ''id'' = Some (q0 # qr) \<and> DRIVE_ID_RE_fullmatch q0 \<longrightarrow>
            resolve_drive_id L (Some v) expected = Inr q0) \<and>
         (PATH_FOLDER_RE (path p) = None \<and> PATH_FILE_D_RE (path p) = None \<and> PATH_D_RE (path p) = None \<and>
          (\<forall>q1 qs. parse_qs L (query p) ''id'' = Some (q1 # qs) \<longrightarrow> \<not> DRIVE_ID_RE_fullmatch q1) \<longrightarrow>
            resolve_drive_id L (Some v) expected =
              Inl (ValidationError (''Could not extract '' @ expected @ '' ID from value: '' @ v)) \<and>
            contains v (''Could not extract '' @ expected @ '' ID from value: '' @ v) \<and>
            failure_class (resolve_drive_id L (Some v) expected) = Some InvalidInput) \<and>
         (\<forall>r. resolve_drive_id L (Some v) expected = Inr r \<longrightarrow> DRIVE_ID_RE_fullmatch r)"
proof -
  note u = resolve_drive_id_url [OF assms(1-5), of expected]
  have c: "contains v (''Could not extract '' @ expected @ '' ID from value: '' @ v)"
    using contains_append_right [of v "''Could not extract '' @ expected @ '' ID from value: ''"]
    by simp
  have 1: "PATH_FOLDER_RE (path p) = Some g \<longrightarrow> resolve_drive_id L (Some v) expected = Inr g"
    using u assms(6,7) by auto
  have 2: "PATH_FOLDER_RE (path p) = None \<and> PATH_FILE_D_RE (path p) = Some g \<longrightarrow>
            resolve_drive_id L (Some v) expected = Inr g"
    using u assms(6,7) by auto
  have 3: "PATH_FOLDER_RE (path p) = None \<and> PATH_FILE_D_RE (path p) = None \<and> PATH_D_RE (path p) = Some g \<longrightarrow>
            resolve_drive_id L (Some v) expected = Inr g"
    using u assms(6,7) by auto
  have 4: "PATH_FOLDER_RE (path p) = None \<and> PATH_FILE_D_RE (path p) = None \<and> PATH_D_RE (path p) = None \<and>
          parse_qs L (query p) ''id'' = Some (q0 # qr) \<and> DRIVE_ID_RE_fullmatch q0 \<longrightarrow>
            resolve_drive_id L (Some v) expected = Inr q0"
    using u assms(6,7) by auto
  have 5: "PATH_FOLDER_RE (path p) = None \<and> PATH_FILE_D_RE (path p) = None \<and> PATH_D_RE (path p) = None \<and>
          (\<forall>q1 qs. parse_qs L (query p) ''id'' = Some (q1 # qs) \<longrightarrow> \<not> DRIVE_ID_RE_fullmatch q1) \<longrightarrow>
            resolve_drive_id L (Some v) expected =
              Inl (ValidationError (''Could not extract '' @ expected @ '' ID from value: '' @ v)) \<and>
            contains v (''Could not extract '' @ expected @ '' ID from value: '' @ v) \<and>
            failure_class (resolve_drive_id L (Some v) expected) = Some InvalidInput"
    using u assms(6,7) c
    by (auto simp: failure_class_def split: option.splits list.splits)
  have 6: "\<forall>r. resolve_drive_id L (Some v) expected = Inr r \<longrightarrow> DRIVE_ID_RE_fullmatch r"
    using resolve_result_shape by blast
  show ?thesis
    using 1 2 3 4 5 6 by blast
qed

theorem path_patterns_then_query_id_then_failure_witness:
  "resolve_drive_id lib0 (Some ''https://docs.google.com/document/d/1AbcdefGhIjKlmNop/edit'') ''file'' =
     Inr ''1AbcdefGhIjKlmNop'' \<and>
   resolve_drive_id lib0 (Some ''https://drive.google.com/open?id=1AbcdefGhIjKlmNop'') ''folder'' =
     Inr ''1AbcdefGhIjKlmNop'' \<and>
   resolve_drive_id lib0 (Some ''https://drive.google.com/open?id=short'') ''folder'' =
     Inl (ValidationError ''Could not extract folder ID from value: https://drive.google.com/open?id=short'') \<and>
   contains ''https://drive.google.com/open?id=short''
     ''Could not extract folder ID from value: https://drive.google.com/open?id=short''"
proof -
  let ?v1 = "''https://docs.google.com/document/d/1AbcdefGhIjKlmNop/edit''"
  let ?p1 = "\<lparr>scheme = ''https'', netloc = ''docs.google.com'', path = ''/document/d/1AbcdefGhIjKlmNop/edit'',
               params = [], query = [], fragment = []\<rparr>"
  let ?v2 = "''https://drive.google.com/open?id=1AbcdefGhIjKlmNop''"
  let ?p2 = "\<lparr>scheme = ''https'', netloc = ''drive.google.com'', path = ''/open'',
               params = [], query = ''id=1AbcdefGhIjKlmNop'', fragment = []\<rparr>"
  let ?v3 = "''https://drive.google.com/open?id=short''"
  let ?p3 = "\<lparr>scheme = ''https'', netloc = ''drive.google.com'', path = ''/open'',
               params = [], query = ''id=short'', fragment = []\<rparr>"
  have a1: "strip ?v1 \<noteq> []" and b1: "\<not> DRIVE_ID_RE_fullmatch (strip ?v1)"
    and c1: "urlparse lib0 (strip ?v1) = Inr ?p1"
    by code_simp+
  have a2: "strip ?v2 \<noteq> []" and b2: "\<not> DRIVE_ID_RE_fullmatch (strip ?v2)"
    and c2: "urlparse lib0 (strip ?v2) = Inr ?p2"
    by code_simp+
  have a3: "strip ?v3 \<noteq> []" and b3: "\<not> DRIVE_ID_RE_fullmatch (strip ?v3)"
    and c3: "urlparse lib0 (strip ?v3) = Inr ?p3"
    by code_simp+
  have d: "scheme ?p1 \<in> {''http'', ''https''}" "scheme ?p2 \<in> {''http'', ''https''}"
      "scheme ?p3 \<in> {''http'', ''https''}"
    by simp_all
  have e1: "endswith (lower (netloc ?p1)) ''google.com''"
    and e2: "endswith (lower (netloc ?p2)) ''google.com''"
    and e3: "endswith (lower (netloc ?p3)) ''google.com''"
    by code_simp+
  have f1: "\<not> (''file'' = ''folder'' \<and> contains ''/file/'' (path ?p1))"
    and g1: "\<not> (''file'' = ''file'' \<and> contains ''/folders/'' (path ?p1))"
    and f2: "\<not> (''folder'' = ''folder'' \<and> contains ''/file/'' (path ?p2))"
    and g2: "\<not> (''folder'' = ''file'' \<and> contains ''/folders/'' (path ?p2))"
    and f3: "\<not> (''folder'' = ''folder'' \<and> contains ''/file/'' (path ?p3))"
    and g3: "\<not> (''folder'' = ''file'' \<and> contains ''/folders/'' (path ?p3))"
    by code_simp+
  have m1: "PATH_FOLDER_RE (path ?p1) = None" "PATH_FILE_D_RE (path ?p1) = None"
      "PATH_D_RE (path ?p1) = Some ''1AbcdefGhIjKlmNop''"
    by code_simp+
  have m2: "PATH_FOLDER_RE (path ?p2) = None" "PATH_FILE_D_RE (path ?p2) = None"
      "PATH_D_RE (path ?p2) = None"
      "parse_qs lib0 (query ?p2) ''id'' = Some [''1AbcdefGhIjKlmNop'']"
      "DRIVE_ID_RE_fullmatch ''1AbcdefGhIjKlmNop''"
    by code_simp+
  have m3: "PATH_FOLDER_RE (path ?p3) = None" "PATH_FILE_D_RE (path ?p3) = None"
      "PATH_D_RE (path ?p3) = None"
      "parse_qs lib0 (query ?p3) ''id'' = Some [''short'']"
      "\<not> DRIVE_ID_RE_fullmatch ''short''"
    by code_simp+
  note t1 = path_patterns_then_query_id_then_failure
              [OF a1 b1 c1 d(1) e1 f1 g1, of "''1AbcdefGhIjKlmNop''" "[]" "[]"]
  note t2 = path_patterns_then_query_id_then_failure
              [OF a2 b2 c2 d(2) e2 f2 g2, of "[]" "''1AbcdefGhIjKlmNop''" "[]"]
  note t3 = path_patterns_then_query_id_then_failure
              [OF a3 b3 c3 d(3) e3 f3 g3, of "[]" "[]" "[]"]
  have r1: "resolve_drive_id lib0 (Some ?v1) ''file'' = Inr ''1AbcdefGhIjKlmNop''"
    using t1 m1 by blast
  have r2: "resolve_drive_id lib0 (Some ?v2) ''folder'' = Inr ''1AbcdefGhIjKlmNop''"
    using t2 m2 by blast
  have h3: "\<forall>q1 qs. parse_qs lib0 (query ?p3) ''id'' = Some (q1 # qs) \<longrightarrow> \<not> DRIVE_ID_RE_fullmatch q1"
    using m3(4,5) by auto
  have r3: "resolve_drive_id lib0 (Some ?v3) ''folder'' =
              Inl (ValidationError (''Could not extract '' @ ''folder'' @ '' ID from value: '' @ ?v3)) \<and>
            contains ?v3 (''Could not extract '' @ ''folder'' @ '' ID from value: '' @ ?v3)"
    using t3 m3(1,2,3) h3 by blast
  have eq: "''Could not extract '' @ ''folder'' @ '' ID from value: '' @ ?v3 =
            ''Could not extract folder ID from value: https://drive.google.com/open?id=short''"
    by simp
  from r3 have r3': "resolve_drive_id lib0 (Some ?v3) ''folder'' =
              Inl (ValidationError ''Could not extract folder ID from value: https://drive.google.com/open?id=short'') \<and>
            contains ?v3 ''Could not extract folder ID from value: https://drive.google.com/open?id=short''"
    by (simp only: eq)
  show ?thesis
    using r1 r2 r3' by blast
qed

section \<open>Properties of the command outcome classifier\<close>

lemma str_nat_404: "str_nat 404 = ''404''"
  by code_simp

lemma command_errors_returns:
  "func w = Some (Inr v, w1) \<Longrightarrow> command_errors L func w = Some (Inr v, w1)"
  by (simp add: command_errors_def)

lemma command_errors_invalid_input:
  assumes "func w = Some (Inl e, w1)" and "classify e = Some InvalidInput"
  shows "command_errors L func w =
           Some (Inl (Exit 2), w1\<lparr>stderr := stderr w1 @ [''Error: '' @ str_exn e]\<rparr>)"
  using assms
  by (cases e) (simp_all add: command_errors_def handle_def echo_err_def USER_INPUT_EXIT_CODE_def)

lemma command_errors_authentication:
  assumes "func w = Some (Inl e, w1)" and "classify e = Some AuthenticationFailure"
  shows "command_errors L func w =
           Some (Inl (Exit 3), w1\<lparr>stderr := stderr w1 @ [''Auth error: '' @ str_exn e]\<rparr>)"
  using assms
  by (cases e) (simp_all add: command_errors_def handle_def echo_err_def AUTH_EXIT_CODE_def)

lemma command_errors_remote_api:
  assumes "func w = Some (Inl (HttpError exc), w1)" and "extract_http_error L exc = Inr message"
  shows "command_errors L func w =
           Some (Inl (Exit 4),
                 w1\<lparr>stderr := stderr w1 @
                   [''API error ('' @ status_str exc @ ''): '' @ format_value L message]\<rparr>)"
  using assms
  by (simp add: command_errors_def handle_def echo_err_def API_EXIT_CODE_def)

lemma command_errors_extraction_raises:
  assumes "func w = Some (Inl (HttpError exc), w1)" and "extract_http_error L exc = Inl e"
  shows "command_errors L func w = Some (Inl e, w1)"
  using assms
  by (simp add: command_errors_def handle_def)

lemma extract_http_error_message:
  assumes "content exc = Some c" and "c \<noteq> []" and "json_loads L c = Some (JObject kvs)"
    and "map_of kvs ''error'' = Some (JObject err)" and "truthy (py_get err ''message'')"
  shows "extract_http_error L exc = Inr (py_get err ''message'')"
  using assms by (simp add: extract_http_error_def)

lemma extract_http_error_fallback:
  assumes "content exc = None \<or> content exc = Some [] \<or>
           (\<exists>c. content exc = Some c \<and>
              (json_loads L c = None \<or>
               (\<exists>payload. json_loads L c = Some payload \<and> (\<forall>kvs. payload \<noteq> JObject kvs)) \<or>
               (\<exists>kvs. json_loads L c = Some (JObject kvs) \<and> map_of kvs ''error'' = None) \<or>
               (\<exists>kvs err. json_loads L c = Some (JObject kvs) \<and> map_of kvs ''error'' = Some (JObject err) \<and>
                  \<not> truthy (py_get err ''message''))))"
  shows "extract_http_error L exc = Inr (JString (http_str exc))"
  using assms
  by (auto simp: extract_http_error_def py_get_def split: json.splits option.splits)

lemma extract_http_error_raises:
  assumes "content exc = Some c" and "c \<noteq> []" and "json_loads L c = Some (JObject kvs)"
    and "map_of kvs ''error'' = Some v" and "\<forall>err. v \<noteq> JObject err"
  shows "extract_http_error L exc = Inl (no_get v)"
  using assms by (cases v) (simp_all add: extract_http_error_def no_get_def)

lemma not_found_404_example:
  "extract_http_error lib0 not_found_404 = Inr (JString ''File not found'') \<and>
   command_errors lib0 (raise_prog (HttpError not_found_404)) world0 =
     Some (Inl (Exit 4), world0\<lparr>stderr := [''API error (404): File not found'']\<rparr>) \<and>
   exit_code (Inl (Exit 4) :: exn + unit) = 4"
  by (simp add: extract_http_error_def not_found_404_def lib0_def py_get_def command_errors_def
        raise_prog_def handle_def echo_err_def API_EXIT_CODE_def status_str_def str_int_def
        str_nat_404 format_value_def world0_def exit_code_def)

text \<open>
  C4: the extraction does not fall back for every body. When the body is a JSON object
  whose \<open>error\<close> member is not an object, \<open>error.get\<close> raises \<open>AttributeError\<close>:
  no message is extracted and none is substituted.
\<close>

theorem extract_http_error_raises_on_invalid_grant:
  "extract_http_error lib0 invalid_grant_400 =
     Inl (AttributeError (quoted ''str'' @ '' object has no attribute '' @ quoted ''get''))"
  by (simp add: extract_http_error_def invalid_grant_400_def lib0_def quoted_def)

text \<open>
  C1: a remote failure with such a body leaves the wrapper as an \<open>AttributeError\<close>:
  nothing is written to standard error and the exit code is 1, not 4.
\<close>

theorem command_errors_misses_exit_code_4:
  "command_errors lib0 (raise_prog (HttpError invalid_grant_400)) world0 =
     Some (Inl (AttributeError (quoted ''str'' @ '' object has no attribute '' @ quoted ''get'')), world0) \<and>
   classify (HttpError invalid_grant_400) = Some RemoteApiFailure \<and>
   exit_code (Inl (AttributeError (quoted ''str'' @ '' object has no attribute '' @ quoted ''get'')) :: exn + unit) = 1"
  by (simp add: extract_http_error_def invalid_grant_400_def lib0_def quoted_def command_errors_def
        raise_prog_def handle_def exit_code_def)

section \<open>Properties of the commands\<close>

lemma handle_keeps_trace_and_stdout:
  "trace (snd (handle L e w :: (exn + 'a) \<times> world)) = trace w \<and>
   stdout (snd (handle L e w :: (exn + 'a) \<times> world)) = stdout w"
  by (cases e) (auto simp: handle_def echo_err_def split: sum.splits)

lemma handle_invalid_input:
  "classify e = Some InvalidInput \<Longrightarrow>
   handle L e w = (Inl (Exit 2), w\<lparr>stderr := stderr w @ [''Error: '' @ str_exn e]\<rparr>)"
  by (cases e) (simp_all add: handle_def echo_err_def USER_INPUT_EXIT_CODE_def)

lemma failed_resolution_skips_body:
  "command_errors L (bind_prog (lift (Inl e)) body) w = Some (handle L e w)"
  by (simp add: command_errors_def bind_prog_def lift_def)

lemma commands_after_failed_resolution:
  shows "resolve_folder_id L folder_value = Inl e \<Longrightarrow>
           list_directory L E folder_value output_format csv_path w = Some (handle L e w)"
    and "resolve_folder_id L folder_value = Inl e \<Longrightarrow>
           upload_file L E local_path folder_value output_format w = Some (handle L e w)"
    and "resolve_file_id L (Some file_value) = Inl e \<Longrightarrow>
           download_file L E file_value output_path w = Some (handle L e w)"
    and "resolve_file_id L (Some file_value) = Inl e \<Longrightarrow>
           trash_file L E file_value w = Some (handle L e w)"
  by (simp_all add: list_directory_def upload_file_def download_file_def trash_file_def
        failed_resolution_skips_body)

text \<open>
  C8: in every command that resolves a locator (\<open>ls\<close>, \<open>upload\<close>, \<open>download\<close>,
  \<open>trash\<close>), a resolution that fails ends the command at once: no call to a
  collaborator is made (no credentials are loaded, no request is executed), nothing is
  written to standard output, and an InvalidInput failure is reported with exit code 2.
  So a run that did call a collaborator is a run whose resolution succeeded.
\<close>

theorem failed_resolution_reaches_no_collaborator:
  "(resolve_folder_id L folder_value = Inl e \<longrightarrow>
      list_directory L E folder_value output_format csv_path w = Some (handle L e w) \<and>
      upload_file L E local_path folder_value output_format w = Some (handle L e w)) \<and>
   (resolve_file_id L (Some file_value) = Inl e \<longrightarrow>
      download_file L E file_value output_path w = Some (handle L e w) \<and>
      trash_file L E file_value w = Some (handle L e w)) \<and>
   trace (snd (handle L e w :: (exn + unit) \<times> world)) = trace w \<and>
   stdout (snd (handle L e w :: (exn + unit) \<times> world)) = stdout w \<and>
   (classify e = Some InvalidInput \<longrightarrow>
      (handle L e w :: (exn + unit) \<times> world) =
        (Inl (Exit 2), w\<lparr>stderr := stderr w @ [''Error: '' @ str_exn e]\<rparr>)) \<and>
   (\<forall>r w'. list_directory L E folder_value output_format csv_path w = Some (r, w') \<and> trace w' \<noteq> trace w \<longrightarrow>
      (\<exists>folder_id. resolve_folder_id L folder_value = Inr folder_id)) \<and>
   (\<forall>r w'. upload_file L E local_path folder_value output_format w = Some (r, w') \<and> trace w' \<noteq> trace w \<longrightarrow>
      (\<exists>folder_id. resolve_folder_id L folder_value = Inr folder_id)) \<and>
   (\<forall>r w'. download_file L E file_value output_path w = Some (r, w') \<and> trace w' \<noteq> trace w \<longrightarrow>
      (\<exists>file_id. resolve_file_id L (Some file_value) = Inr file_id)) \<and>
   (\<forall>r w'. trash_file L E file_value w = Some (r, w') \<and> trace w' \<noteq> trace w \<longrightarrow>
      (\<exists>file_id. resolve_file_id L (Some file_value) = Inr file_id))"
proof -
  note c = commands_after_failed_resolution
  note h = handle_keeps_trace_and_stdout [of L _ w, where 'a = unit]
  have folder: "\<exists>folder_id. resolve_folder_id L folder_value = Inr folder_id"
    if "cmd = Some (r, w')" and "trace w' \<noteq> trace w"
      and "\<And>e. resolve_folder_id L folder_value = Inl e \<Longrightarrow> cmd = Some (handle L e w)"
    for cmd :: "((exn + unit) \<times> world) option" and r w'
  proof (cases "resolve_folder_id L folder_value")
    case (Inl e')
    with that(1,3) have "handle L e' w = (r, w')" by simp
    then have "snd (handle L e' w :: (exn + unit) \<times> world) = w'" by simp
    then have "trace w' = trace w"
      using h [of e'] by simp
    with that(2) show ?thesis by simp
  next
    case (Inr fid)
    then show ?thesis by blast
  qed
  have file_kind: "\<exists>file_id. resolve_file_id L (Some file_value) = Inr file_id"
    if "cmd = Some (r, w')" and "trace w' \<noteq> trace w"
      and "\<And>e. resolve_file_id L (Some file_value) = Inl e \<Longrightarrow> cmd = Some (handle L e w)"
    for cmd :: "((exn + unit) \<times> world) option" and r w'
  proof (cases "resolve_file_id L (Some file_value)")
    case (Inl e')
    with that(1,3) have "handle L e' w = (r, w')" by simp
    then have "snd (handle L e' w :: (exn + unit) \<times> world) = w'" by simp
    then have "trace w' = trace w"
      using h [of e'] by simp
    with that(2) show ?thesis by simp
  next
    case (Inr fid)
    then show ?thesis by blast
  qed
  have 1: "\<forall>r w'. list_directory L E folder_value output_format csv_path w = Some (r, w') \<and> trace w' \<noteq> trace w \<longrightarrow>
      (\<exists>folder_id. resolve_folder_id L folder_value = Inr folder_id)"
  proof (intro allI impI, elim conjE)
    fix r w'
    assume a: "list_directory L E folder_value output_format csv_path w = Some (r, w')"
      and b: "trace w' \<noteq> trace w"
    show "\<exists>folder_id. resolve_folder_id L folder_value = Inr folder_id"
      by (rule folder [OF a b]) (rule c(1))
  qed
  have 2: "\<forall>r w'. upload_file L E local_path folder_value output_format w = Some (r, w') \<and> trace w' \<noteq> trace w \<longrightarrow>
      (\<exists>folder_id. resolve_folder_id L folder_value = Inr folder_id)"
  proof (intro allI impI, elim conjE)
    fix r w'
    assume a: "upload_file L E local_path folder_value output_format w = Some (r, w')"
      and b: "trace w' \<noteq> trace w"
    show "\<exists>folder_id. resolve_folder_id L folder_value = Inr folder_id"
      by (rule folder [OF a b]) (rule c(2))
  qed
  have 3: "\<forall>r w'. download_file L E file_value output_path w = Some (r, w') \<and> trace w' \<noteq> trace w \<longrightarrow>
      (\<exists>file_id. resolve_file_id L (Some file_value) = Inr file_id)"
  proof (intro allI impI, elim conjE)
    fix r w'
    assume a: "download_file L E file_value output_path w = Some (r, w')"
      and b: "trace w' \<noteq> trace w"
    show "\<exists>file_id. resolve_file_id L (Some file_value) = Inr file_id"
      by (rule file_kind [OF a b]) (rule c(3))
  qed
  have 4: "\<forall>r w'. trash_file L E file_value w = Some (r, w') \<and> trace w' \<noteq> trace w \<longrightarrow>
      (\<exists>file_id. resolve_file_id L (Some file_value) = Inr file_id)"
  proof (intro allI impI, elim conjE)
    fix r w'
    assume a: "trash_file L E file_value w = Some (r, w')"
      and b: "trace w' \<noteq> trace w"
    show "\<exists>file_id. resolve_file_id L (Some file_value) = Inr file_id"
      by (rule file_kind [OF a b]) (rule c(4))
  qed
  have A: "resolve_folder_id L folder_value = Inl e \<longrightarrow>
      list_directory L E folder_value output_format csv_path w = Some (handle L e w) \<and>
      upload_file L E local_path folder_value output_format w = Some (handle L e w)"
    using c(1,2) by simp
  have B: "resolve_file_id L (Some file_value) = Inl e \<longrightarrow>
      download_file L E file_value output_path w = Some (handle L e w) \<and>
      trash_file L E file_value w = Some (handle L e w)"
    using c(3,4) by simp
  have C: "trace (snd (handle L e w :: (exn + unit) \<times> world)) = trace w"
    and D: "stdout (snd (handle L e w :: (exn + unit) \<times> world)) = stdout w"
    using h [of e] by simp_all
  have I: "classify e = Some InvalidInput \<longrightarrow>
      (handle L e w :: (exn + unit) \<times> world) =
        (Inl (Exit 2), w\<lparr>stderr := stderr w @ [''Error: '' @ str_exn e]\<rparr>)"
    using handle_invalid_input [of e L w, where 'a = unit] by simp
  from A B C D I 1 2 3 4 show ?thesis
    by (intro conjI)
qed

theorem failed_resolution_reaches_no_collaborator_witness:
  "resolve_folder_id lib0 (Some ''ftp://host/x'') =
     Inl (ValidationError ''Expected a Google Drive folder ID or link.'') \<and>
   list_directory lib0 env_ok (Some ''ftp://host/x'') ''table'' None world0 =
     Some (Inl (Exit 2), world0\<lparr>stderr := [''Error: Expected a Google Drive folder ID or link.'']\<rparr>) \<and>
   upload_file lib0 env_ok ''notes.txt'' (Some ''ftp://host/x'') ''table'' world0 =
     Some (Inl (Exit 2), world0\<lparr>stderr := [''Error: Expected a Google Drive folder ID or link.'']\<rparr>) \<and>
   resolve_file_id lib0 (Some ''ftp://host/x'') =
     Inl (ValidationError ''Expected a Google Drive file ID or link.'') \<and>
   download_file lib0 env_ok ''ftp://host/x'' None world0 =
     Some (Inl (Exit 2), world0\<lparr>stderr := [''Error: Expected a Google Drive file ID or link.'']\<rparr>) \<and>
   trash_file lib0 env_ok ''ftp://host/x'' world0 =
     Some (Inl (Exit 2), world0\<lparr>stderr := [''Error: Expected a Google Drive file ID or link.'']\<rparr>) \<and>
   trace (snd (the (trash_file lib0 env_ok ''1AbcdefGhIjKlmNop'' world0))) \<noteq> trace world0 \<and>
   (\<exists>file_id. resolve_file_id lib0 (Some ''1AbcdefGhIjKlmNop'') = Inr file_id)"
proof -
  let ?ef = "ValidationError ''Expected a Google Drive folder ID or link.''"
  let ?ei = "ValidationError ''Expected a Google Drive file ID or link.''"
  have rf: "resolve_folder_id lib0 (Some ''ftp://host/x'') = Inl ?ef"
    and ri: "resolve_file_id lib0 (Some ''ftp://host/x'') = Inl ?ei"
    by code_simp+
  have cf: "classify ?ef = Some InvalidInput" and ci: "classify ?ei = Some InvalidInput"
    by simp_all
  note tf = failed_resolution_reaches_no_collaborator
              [of lib0 "Some ''ftp://host/x''" ?ef env_ok "''table''" None world0 "''notes.txt''"
                  "''ftp://host/x''" None]
  note ti = failed_resolution_reaches_no_collaborator
              [of lib0 "Some ''ftp://host/x''" ?ei env_ok "''table''" None world0 "''notes.txt''"
                  "''ftp://host/x''" None]
  note af = tf [THEN conjunct1, THEN mp, OF rf]
  note ai = ti [THEN conjunct2, THEN conjunct1, THEN mp, OF ri]
  note hf0 = tf [THEN conjunct2, THEN conjunct2, THEN conjunct2, THEN conjunct2, THEN conjunct1,
                 THEN mp, OF cf]
  note hi0 = ti [THEN conjunct2, THEN conjunct2, THEN conjunct2, THEN conjunct2, THEN conjunct1,
                 THEN mp, OF ci]
  have hf: "(handle lib0 ?ef world0 :: (exn + unit) \<times> world) =
              (Inl (Exit 2), world0\<lparr>stderr := [''Error: Expected a Google Drive folder ID or link.'']\<rparr>)"
    using hf0 by (simp add: world0_def)
  have hi: "(handle lib0 ?ei world0 :: (exn + unit) \<times> world) =
              (Inl (Exit 2), world0\<lparr>stderr := [''Error: Expected a Google Drive file ID or link.'']\<rparr>)"
    using hi0 by (simp add: world0_def)
  let ?w1 = "\<lparr>trace = [LoadCredentials True, BuildService,
                            Execute ''update'' [(''fileId'', JString ''1AbcdefGhIjKlmNop''),
                                                (''body'', JObject [(''trashed'', JBool True)])]],
                  stdout = [''Moved to trash: 1AbcdefGhIjKlmNop (None)''], stderr = []\<rparr>"
  have run: "trash_file lib0 env_ok ''1AbcdefGhIjKlmNop'' world0 = Some (Inr (), ?w1)"
    by code_simp
  have ne: "trace ?w1 \<noteq> trace world0"
    by (simp add: world0_def)
  have moved: "trace (snd (the (trash_file lib0 env_ok ''1AbcdefGhIjKlmNop'' world0))) \<noteq> trace world0"
    unfolding run using ne by simp
  note ts = failed_resolution_reaches_no_collaborator
              [of lib0 None ?ef env_ok "''table''" None world0 "''notes.txt''"
                  "''1AbcdefGhIjKlmNop''" None]
  note last_part = ts [THEN conjunct2, THEN conjunct2, THEN conjunct2, THEN conjunct2, THEN conjunct2,
                       THEN conjunct2, THEN conjunct2, THEN conjunct2, rule_format, of "Inr ()" ?w1]
  have ex: "\<exists>file_id. resolve_file_id lib0 (Some ''1AbcdefGhIjKlmNop'') = Inr file_id"
    using last_part run ne by blast
  have l: "list_directory lib0 env_ok (Some ''ftp://host/x'') ''table'' None world0 =
             Some (Inl (Exit 2), world0\<lparr>stderr := [''Error: Expected a Google Drive folder ID or link.'']\<rparr>)"
    and u: "upload_file lib0 env_ok ''notes.txt'' (Some ''ftp://host/x'') ''table'' world0 =
             Some (Inl (Exit 2), world0\<lparr>stderr := [''Error: Expected a Google Drive folder ID or link.'']\<rparr>)"
    using af by (simp_all only: hf)
  have d: "download_file lib0 env_ok ''ftp://host/x'' None world0 =
             Some (Inl (Exit 2), world0\<lparr>stderr := [''Error: Expected a Google Drive file ID or link.'']\<rparr>)"
    and t: "trash_file lib0 env_ok ''ftp://host/x'' world0 =
             Some (Inl (Exit 2), world0\<lparr>stderr := [''Error: Expected a Google Drive file ID or link.'']\<rparr>)"
    using ai by (simp_all only: hi)
  from rf l u ri d t moved ex show ?thesis
    by (intro conjI)
qed

section \<open>Properties of the diagnostics aggregator\<close>

lemma check_record_facts [simp]:
  "is_fail (check_record name status detail) = (status = ''fail'')"
  "is_warn (check_record name status detail) = (status = ''warn'')"
  "check_name (check_record name status detail) = JString name"
  by (simp_all add: is_fail_def is_warn_def check_name_def check_record_def py_get_def)

lemma fail_count_append [simp]: "fail_count (cs @ new) = fail_count cs + fail_count new"
  by (simp add: fail_count_def)

lemma fail_count_Nil [simp]: "fail_count [] = 0"
  by (simp add: fail_count_def)

lemma fail_count_Cons [simp]: "fail_count (c # cs) = (if is_fail c then 1 else 0) + fail_count cs"
  by (simp add: fail_count_def)








section \<open>Links recognized by their path\<close>

text \<open>
  The cross-kind behaviour for any link that passes the scheme and host checks: a path
  that matches the folder pattern and holds no file segment resolves as a folder and is
  refused as a file; a path that matches the file-detail pattern and holds no folder
  segment resolves as a file and is refused as a folder.
\<close>

lemma contains_inner: "contains (a @ b @ c) s \<Longrightarrow> contains b s"
proof -
  assume "contains (a @ b @ c) s"
  then obtain u w where "s = u @ (a @ b @ c) @ w"
    unfolding contains_iff by blast
  then have "s = (u @ a) @ b @ (c @ w)"
    by simp
  then show "contains b s"
    unfolding contains_iff by blast
qed

lemma search_id_contains:
  assumes "search_id pre s = Some g"
  shows "contains (pre @ g) s"
proof -
  from assms obtain u w where "s = u @ pre @ g @ w"
    using search_id_sound by blast
  then have "s = u @ (pre @ g) @ w"
    by simp
  then show ?thesis
    unfolding contains_iff by blast
qed

lemma recognized_links_resolve_by_kind:
  assumes "strip v \<noteq> []" and "\<not> DRIVE_ID_RE_fullmatch (strip v)"
    and "urlparse L (strip v) = Inr p" and "scheme p \<in> {''http'', ''https''}"
    and "endswith (lower (netloc p)) ''google.com''"
  shows "PATH_FOLDER_RE (path p) = Some i \<Longrightarrow> \<not> contains ''/file/'' (path p) \<Longrightarrow>
           resolve_folder_id L (Some v) = Inr i \<and>
           resolve_file_id L (Some v) =
             Inl (ValidationError ''Expected file link/ID, but folder link was provided.'')"
    and "PATH_FILE_D_RE (path p) = Some i \<Longrightarrow> \<not> contains ''/folders/'' (path p) \<Longrightarrow>
           resolve_file_id L (Some v) = Inr i \<and>
           resolve_folder_id L (Some v) =
             Inl (ValidationError ''Expected folder link/ID, but file link was provided.'')"
proof -
  note u = resolve_drive_id_url [OF assms]
  {
    assume m: "PATH_FOLDER_RE (path p) = Some i" and n: "\<not> contains ''/file/'' (path p)"
    from m have "contains (''/drive'' @ ''/folders/'' @ i) (path p)"
      using search_id_contains [of "''/drive/folders/''" "path p" i]
      by (simp add: PATH_FOLDER_RE_def)
    then have c: "contains ''/folders/'' (path p)"
      by (rule contains_inner)
    show "resolve_folder_id L (Some v) = Inr i \<and>
           resolve_file_id L (Some v) =
             Inl (ValidationError ''Expected file link/ID, but folder link was provided.'')"
      using u [of "''folder''"] u [of "''file''"] m n c
      by (simp add: resolve_folder_id_def resolve_file_id_def)
  }
  {
    assume m: "PATH_FILE_D_RE (path p) = Some i" and n: "\<not> contains ''/folders/'' (path p)"
    from m have "contains ([] @ ''/file/'' @ (''d/'' @ i)) (path p)"
      using search_id_contains [of "''/file/d/''" "path p" i]
      by (simp add: PATH_FILE_D_RE_def)
    then have c: "contains ''/file/'' (path p)"
      by (rule contains_inner)
    have f: "PATH_FOLDER_RE (path p) = None"
    proof (cases "PATH_FOLDER_RE (path p)")
      case None
      then show ?thesis .
    next
      case (Some g)
      then have "contains (''/drive'' @ ''/folders/'' @ g) (path p)"
        using search_id_contains [of "''/drive/folders/''" "path p" g]
        by (simp add: PATH_FOLDER_RE_def)
      then have "contains ''/folders/'' (path p)"
        by (rule contains_inner)
      with n show ?thesis by simp
    qed
    show "resolve_file_id L (Some v) = Inr i \<and>
           resolve_folder_id L (Some v) =
             Inl (ValidationError ''Expected folder link/ID, but file link was provided.'')"
      using u [of "''folder''"] u [of "''file''"] m n c f
      by (simp add: resolve_folder_id_def resolve_file_id_def)
  }
qed

end
